theory Spec2Isabelle
  imports Complex_Main
begin

section \<open>Python values and exceptions\<close>

text \<open>
  The values that reach the gauge points of \<^verbatim>\<open>opencensus/metrics/export/gauge.py\<close>:
  \<^verbatim>\<open>None\<close>, booleans, unbounded integers, floats and strings. The carrier of Python's
  \<^verbatim>\<open>float\<close> is the type parameter \<open>'f\<close>; what the interpreter does with floats is
  taken as a parameter (\<open>float_ops\<close> below), so that no property depends on a particular
  rounding.
\<close>

datatype 'f pyval = PyNone | PyBool bool | PyInt int | PyFloat 'f | PyStr string

datatype exc =
    ValueError | TypeError | OverflowError | KeyError | AttributeError
  | InvalidAddress
  | OtherError string

text \<open>
  \<open>InvalidAddress\<close> is not a Python exception: it is what the model answers when a
  reference does not point into the object store, which no reference handed out by an
  allocation ever does (see \<open>wf_state\<close>).
\<close>

record 'f float_ops =
  float_zero :: 'f                             \<comment> \<open>the literal \<^verbatim>\<open>0.0\<close>\<close>
  float_of_int :: "int \<Rightarrow> 'f option"           \<comment> \<open>\<^verbatim>\<open>float(i)\<close>; None is OverflowError\<close>
  float_of_str :: "string \<Rightarrow> 'f option"        \<comment> \<open>\<^verbatim>\<open>float(s)\<close>; None is ValueError\<close>
  float_add :: "'f \<Rightarrow> 'f \<Rightarrow> 'f"                \<comment> \<open>\<^verbatim>\<open>x + y\<close> on two floats\<close>

text \<open>\<^verbatim>\<open>isinstance(val, six.integer_types)\<close>: \<^verbatim>\<open>bool\<close> is a subclass of \<^verbatim>\<open>int\<close>.\<close>

fun isinstance_int :: "'f pyval \<Rightarrow> bool" where
  "isinstance_int (PyInt i) = True"
| "isinstance_int (PyBool b) = True"
| "isinstance_int v = False"

fun is_number :: "'f pyval \<Rightarrow> bool" where
  "is_number (PyInt i) = True"
| "is_number (PyBool b) = True"
| "is_number (PyFloat x) = True"
| "is_number v = False"

fun as_int :: "'f pyval \<Rightarrow> int option" where
  "as_int (PyInt i) = Some i"
| "as_int (PyBool b) = Some (if b then 1 else 0)"
| "as_int v = None"

text \<open>\<^verbatim>\<open>float(v)\<close>.\<close>

fun py_float :: "'f float_ops \<Rightarrow> 'f pyval \<Rightarrow> exc + 'f" where
  "py_float fo PyNone = Inl TypeError"
| "py_float fo (PyBool b) =
     (case float_of_int fo (if b then 1 else 0) of None \<Rightarrow> Inl OverflowError | Some x \<Rightarrow> Inr x)"
| "py_float fo (PyInt i) =
     (case float_of_int fo i of None \<Rightarrow> Inl OverflowError | Some x \<Rightarrow> Inr x)"
| "py_float fo (PyFloat x) = Inr x"
| "py_float fo (PyStr s) =
     (case float_of_str fo s of None \<Rightarrow> Inl ValueError | Some x \<Rightarrow> Inr x)"

text \<open>\<^verbatim>\<open>a + b\<close> (and \<^verbatim>\<open>a += b\<close>, the same on immutable values).\<close>

definition py_add :: "'f float_ops \<Rightarrow> 'f pyval \<Rightarrow> 'f pyval \<Rightarrow> exc + 'f pyval" where
  "py_add fo a b =
     (case (as_int a, as_int b) of
        (Some i, Some j) \<Rightarrow> Inr (PyInt (i + j))
      | _ \<Rightarrow>
          if is_number a \<and> is_number b then
            (case py_float fo a of
               Inl e \<Rightarrow> Inl e
             | Inr x \<Rightarrow>
                 (case py_float fo b of
                    Inl e \<Rightarrow> Inl e
                  | Inr y \<Rightarrow> Inr (PyFloat (float_add fo x y))))
          else
            (case (a, b) of
               (PyStr s, PyStr t) \<Rightarrow> Inr (PyStr (s @ t))
             | _ \<Rightarrow> Inl TypeError))"

section \<open>The collaborators: descriptor, value, point, time series, metric\<close>

text \<open>
  Modelled from the spec: the classes of \<^verbatim>\<open>metric_descriptor\<close>, \<^verbatim>\<open>value\<close>,
  \<^verbatim>\<open>point\<close>, \<^verbatim>\<open>time_series\<close> and \<^verbatim>\<open>metric\<close> are imported by the source and are
  not part of it. The spec treats them as external constructors: given (label values,
  typed value, timestamp) the collaborator builds one point and one time series, and given
  (descriptor, list of time series) one metric. They are plain data here, each constructor
  with the arguments the source passes to it.
\<close>

datatype metric_descriptor_type = GAUGE_INT64 | GAUGE_DOUBLE

datatype metric_descriptor =
  MetricDescriptor (md_name: string) (md_description: string) (md_unit: string)
    (md_type: metric_descriptor_type) (md_label_keys: "string list")

datatype 'f pvalue = ValueLong "'f pyval" | ValueDouble "'f pyval"

datatype ('f, 't) point =
  Point (point_value: "'f pvalue option") (point_timestamp: 't)

datatype ('f, 'l, 't) time_series =
  TimeSeries (ts_label_values: "'l option list") (ts_points: "('f, 't) point list")
    (ts_start_timestamp: 't)

datatype ('f, 'l, 't) metric =
  Metric (m_descriptor: metric_descriptor)
    (m_time_series: "('f, 'l, 't) time_series list")

section \<open>Objects, locks and the state\<close>

type_synonym addr = nat
type_synonym fid = nat

text \<open>
  The three point classes. A \<open>DerivedGaugePoint\<close> holds the weak reference to its
  tracked function (the function's identity) and the reference to the point it wraps.
\<close>

datatype 'f gauge_point =
    GaugePointLong "'f pyval"
  | GaugePointDouble "'f pyval"
  | DerivedGaugePoint fid addr

datatype lock = PointsLock | ValueLock addr

datatype event = Acquire lock | Release lock | Invoke fid

text \<open>
  The four concrete gauge classes; the mixins \<open>LongGaugeMixin\<close> and
  \<open>DoubleGaugeMixin\<close> fix \<open>descriptor_type\<close> and \<open>point_type\<close>.
\<close>

datatype gauge_class = LongGauge | DoubleGauge | DerivedLongGauge | DerivedDoubleGauge

datatype point_class = Long | Double

fun descriptor_type :: "gauge_class \<Rightarrow> metric_descriptor_type" where
  "descriptor_type LongGauge = GAUGE_INT64"
| "descriptor_type DerivedLongGauge = GAUGE_INT64"
| "descriptor_type DoubleGauge = GAUGE_DOUBLE"
| "descriptor_type DerivedDoubleGauge = GAUGE_DOUBLE"

fun point_type :: "gauge_class \<Rightarrow> point_class" where
  "point_type LongGauge = Long"
| "point_type DerivedLongGauge = Long"
| "point_type DoubleGauge = Double"
| "point_type DerivedDoubleGauge = Double"

fun is_derived :: "gauge_class \<Rightarrow> bool" where
  "is_derived DerivedLongGauge = True"
| "is_derived DerivedDoubleGauge = True"
| "is_derived c = False"

text \<open>
  One gauge, the store of the point objects it refers to, and the log of lock and call
  events. A label value is \<open>None\<close> (Python's \<^verbatim>\<open>None\<close>) or a hashable value of type
  \<open>'l\<close>, compared as the dictionary compares keys. \<open>points\<close> is the
  \<^verbatim>\<open>OrderedDict\<close>: an association list in insertion order, from the tuple of label
  values to the reference of the point.
\<close>

record ('f, 'l) state =
  heap :: "'f gauge_point list"
  trace :: "event list"
  gauge_class :: gauge_class
  len_label_keys :: nat
  default_label_values :: "'l option list"
  descriptor :: metric_descriptor
  points :: "('l option list \<times> addr) list"

type_synonym ('f, 'l, 'a) op = "('f, 'l) state \<Rightarrow> (exc + 'a) \<times> ('f, 'l) state"

definition log_event :: "event \<Rightarrow> ('f, 'l) state \<Rightarrow> ('f, 'l) state" where
  "log_event e s = s\<lparr>trace := trace s @ [e]\<rparr>"

text \<open>\<^verbatim>\<open>with lock: body\<close>: the lock is released on every exit, also by an exception.\<close>

definition with_lock :: "lock \<Rightarrow> ('f, 'l, 'a) op \<Rightarrow> ('f, 'l, 'a) op" where
  "with_lock lk body s =
     (case body (log_event (Acquire lk) s) of (r, s') \<Rightarrow> (r, log_event (Release lk) s'))"

definition lookup_obj :: "('f, 'l) state \<Rightarrow> addr \<Rightarrow> 'f gauge_point option" where
  "lookup_obj s a = (if a < length (heap s) then Some (heap s ! a) else None)"

definition alloc :: "'f gauge_point \<Rightarrow> ('f, 'l) state \<Rightarrow> addr \<times> ('f, 'l) state" where
  "alloc ob s = (length (heap s), s\<lparr>heap := heap s @ [ob]\<rparr>)"

definition store_obj :: "addr \<Rightarrow> 'f gauge_point \<Rightarrow> ('f, 'l) state \<Rightarrow> ('f, 'l) state" where
  "store_obj a ob s = s\<lparr>heap := (heap s)[a := ob]\<rparr>"

section \<open>GaugePointLong and GaugePointDouble\<close>

text \<open>
  A method takes \<open>self\<close> as the reference \<open>a\<close>. Reading \<^verbatim>\<open>self.value\<close> fails
  on an object that has no such attribute.
\<close>

definition self_value :: "('f, 'l) state \<Rightarrow> addr \<Rightarrow> exc + 'f pyval" where
  "self_value s a =
     (case lookup_obj s a of
        None \<Rightarrow> Inl InvalidAddress
      | Some (GaugePointLong v) \<Rightarrow> Inr v
      | Some (GaugePointDouble v) \<Rightarrow> Inr v
      | Some (DerivedGaugePoint f g) \<Rightarrow> Inl AttributeError)"

definition GaugePointLong_init :: "'f gauge_point" where
  "GaugePointLong_init = GaugePointLong (PyInt 0)"

definition GaugePointLong_add :: "'f float_ops \<Rightarrow> addr \<Rightarrow> 'f pyval \<Rightarrow> ('f, 'l, unit) op" where
  "GaugePointLong_add fo a val s =
     (if \<not> isinstance_int val then (Inl ValueError, s)
      else
        with_lock (ValueLock a)
          (\<lambda>s. case self_value s a of
                 Inl e \<Rightarrow> (Inl e, s)
               | Inr v \<Rightarrow>
                   (case py_add fo v val of
                      Inl e \<Rightarrow> (Inl e, s)
                    | Inr v' \<Rightarrow> (Inr (), store_obj a (GaugePointLong v') s))) s)"

definition GaugePointLong_set :: "addr \<Rightarrow> 'f pyval \<Rightarrow> ('f, 'l, unit) op" where
  "GaugePointLong_set a val s =
     (if \<not> isinstance_int val then (Inl ValueError, s)
      else with_lock (ValueLock a) (\<lambda>s. (Inr (), store_obj a (GaugePointLong val) s)) s)"

definition GaugePointLong_get_value :: "addr \<Rightarrow> ('f, 'l, 'f pyval) op" where
  "GaugePointLong_get_value a s = (self_value s a, s)"

definition GaugePointLong_to_point_value :: "addr \<Rightarrow> ('f, 'l, 'f pvalue) op" where
  "GaugePointLong_to_point_value a s =
     (case self_value s a of Inl e \<Rightarrow> (Inl e, s) | Inr v \<Rightarrow> (Inr (ValueLong v), s))"

definition GaugePointDouble_init :: "'f float_ops \<Rightarrow> 'f gauge_point" where
  "GaugePointDouble_init fo = GaugePointDouble (PyFloat (float_zero fo))"

definition GaugePointDouble_add :: "'f float_ops \<Rightarrow> addr \<Rightarrow> 'f pyval \<Rightarrow> ('f, 'l, unit) op" where
  "GaugePointDouble_add fo a val =
     with_lock (ValueLock a)
       (\<lambda>s. case self_value s a of
              Inl e \<Rightarrow> (Inl e, s)
            | Inr v \<Rightarrow>
                (case py_add fo v val of
                   Inl e \<Rightarrow> (Inl e, s)
                 | Inr v' \<Rightarrow> (Inr (), store_obj a (GaugePointDouble v') s)))"

definition GaugePointDouble_set :: "'f float_ops \<Rightarrow> addr \<Rightarrow> 'f pyval \<Rightarrow> ('f, 'l, unit) op" where
  "GaugePointDouble_set fo a val =
     with_lock (ValueLock a)
       (\<lambda>s. case py_float fo val of
              Inl e \<Rightarrow> (Inl e, s)
            | Inr x \<Rightarrow> (Inr (), store_obj a (GaugePointDouble (PyFloat x)) s))"

definition GaugePointDouble_get_value :: "addr \<Rightarrow> ('f, 'l, 'f pyval) op" where
  "GaugePointDouble_get_value a s = (self_value s a, s)"

definition GaugePointDouble_to_point_value :: "addr \<Rightarrow> ('f, 'l, 'f pvalue) op" where
  "GaugePointDouble_to_point_value a s =
     (case self_value s a of Inl e \<Rightarrow> (Inl e, s) | Inr v \<Rightarrow> (Inr (ValueDouble v), s))"

text \<open>
  The calls \<^verbatim>\<open>gp.add(val)\<close> and \<^verbatim>\<open>gp.set(val)\<close> on a reference: the method of the
  object's own class runs. A \<open>DerivedGaugePoint\<close> has neither method.
\<close>

definition add :: "'f float_ops \<Rightarrow> addr \<Rightarrow> 'f pyval \<Rightarrow> ('f, 'l, unit) op" where
  "add fo a val s =
     (case lookup_obj s a of
        None \<Rightarrow> (Inl InvalidAddress, s)
      | Some (GaugePointLong v) \<Rightarrow> GaugePointLong_add fo a val s
      | Some (GaugePointDouble v) \<Rightarrow> GaugePointDouble_add fo a val s
      | Some (DerivedGaugePoint f g) \<Rightarrow> (Inl AttributeError, s))"

definition set_value :: "'f float_ops \<Rightarrow> addr \<Rightarrow> 'f pyval \<Rightarrow> ('f, 'l, unit) op" where
  "set_value fo a val s =
     (case lookup_obj s a of
        None \<Rightarrow> (Inl InvalidAddress, s)
      | Some (GaugePointLong v) \<Rightarrow> GaugePointLong_set a val s
      | Some (GaugePointDouble v) \<Rightarrow> GaugePointDouble_set fo a val s
      | Some (DerivedGaugePoint f g) \<Rightarrow> (Inl AttributeError, s))"

section \<open>DerivedGaugePoint\<close>

text \<open>
  Modelled from the spec: \<^verbatim>\<open>utils.get_weakref\<close> is imported by the source and is not
  part of it. The spec describes it as a utility that, given a callable, returns a
  zero-argument accessor which yields the callable if its target object is still live, or
  an absent indicator otherwise. The tracked functions themselves are external code. Both
  are the environment \<open>env\<close> of a read: for the function \<open>f\<close>, \<open>env f\<close> says whether
  the target has been collected and, if not, what a call of \<open>f\<close> does now (return a
  value or raise).
\<close>

datatype 'f outcome = Returns "'f pyval" | Raises exc

datatype 'f weak_target = Collected | Live "'f outcome"

type_synonym 'f env = "fid \<Rightarrow> 'f weak_target"

text \<open>
  \<^verbatim>\<open>self.gauge_point.set(self.func()())\<close>: the accessor \<^verbatim>\<open>self.func()\<close> yields
  \<^verbatim>\<open>None\<close> for a collected target, and calling \<^verbatim>\<open>None\<close> raises TypeError; a live
  function is called, and what it returns is stored by the wrapped point's \<open>set\<close>.
\<close>

definition evaluate_and_store ::
  "'f env \<Rightarrow> 'f float_ops \<Rightarrow> fid \<Rightarrow> addr \<Rightarrow> ('f, 'l, unit) op" where
  "evaluate_and_store env fo f g s =
     (case env f of
        Collected \<Rightarrow> (Inl TypeError, s)
      | Live (Raises e) \<Rightarrow> (Inl e, log_event (Invoke f) s)
      | Live (Returns v) \<Rightarrow> set_value fo g v (log_event (Invoke f) s))"

text \<open>
  The calls \<^verbatim>\<open>self.gauge_point.get_value()\<close> and
  \<^verbatim>\<open>self.gauge_point.to_point_value()\<close> on the wrapped point. They are reached only
  after \<open>set\<close> has succeeded on that point, which it does on the two plain classes only.
\<close>

definition wrapped_get_value :: "addr \<Rightarrow> ('f, 'l, 'f pyval) op" where
  "wrapped_get_value g s =
     (case lookup_obj s g of
        None \<Rightarrow> (Inl InvalidAddress, s)
      | Some (GaugePointLong v) \<Rightarrow> GaugePointLong_get_value g s
      | Some (GaugePointDouble v) \<Rightarrow> GaugePointDouble_get_value g s
      | Some (DerivedGaugePoint f' g') \<Rightarrow> (Inl AttributeError, s))"

definition wrapped_to_point_value :: "addr \<Rightarrow> ('f, 'l, 'f pvalue) op" where
  "wrapped_to_point_value g s =
     (case lookup_obj s g of
        None \<Rightarrow> (Inl InvalidAddress, s)
      | Some (GaugePointLong v) \<Rightarrow> GaugePointLong_to_point_value g s
      | Some (GaugePointDouble v) \<Rightarrow> GaugePointDouble_to_point_value g s
      | Some (DerivedGaugePoint f' g') \<Rightarrow> (Inl AttributeError, s))"

definition DerivedGaugePoint_get_value ::
  "'f env \<Rightarrow> 'f float_ops \<Rightarrow> fid \<Rightarrow> addr \<Rightarrow> ('f, 'l, 'f pyval) op" where
  "DerivedGaugePoint_get_value env fo f g s =
     (case evaluate_and_store env fo f g s of
        (Inl e, s') \<Rightarrow> if e = TypeError then (Inr PyNone, s') else (Inl e, s')
      | (Inr u, s') \<Rightarrow> wrapped_get_value g s')"

definition DerivedGaugePoint_to_point_value ::
  "'f env \<Rightarrow> 'f float_ops \<Rightarrow> fid \<Rightarrow> addr \<Rightarrow> ('f, 'l, 'f pvalue option) op" where
  "DerivedGaugePoint_to_point_value env fo f g s =
     (case DerivedGaugePoint_get_value env fo f g s of
        (Inl e, s') \<Rightarrow> (Inl e, s')
      | (Inr v, s') \<Rightarrow>
          if v = PyNone then (Inr None, s')
          else
            (case wrapped_to_point_value g s' of
               (Inl e, s'') \<Rightarrow> (Inl e, s'')
             | (Inr pv, s'') \<Rightarrow> (Inr (Some pv), s'')))"

text \<open>\<^verbatim>\<open>gp.get_value()\<close> and \<^verbatim>\<open>gp.to_point_value()\<close> on any reference.\<close>

definition get_value :: "'f env \<Rightarrow> 'f float_ops \<Rightarrow> addr \<Rightarrow> ('f, 'l, 'f pyval) op" where
  "get_value env fo a s =
     (case lookup_obj s a of
        None \<Rightarrow> (Inl InvalidAddress, s)
      | Some (GaugePointLong v) \<Rightarrow> GaugePointLong_get_value a s
      | Some (GaugePointDouble v) \<Rightarrow> GaugePointDouble_get_value a s
      | Some (DerivedGaugePoint f g) \<Rightarrow> DerivedGaugePoint_get_value env fo f g s)"

definition to_point_value ::
  "'f env \<Rightarrow> 'f float_ops \<Rightarrow> addr \<Rightarrow> ('f, 'l, 'f pvalue option) op" where
  "to_point_value env fo a s =
     (case lookup_obj s a of
        None \<Rightarrow> (Inl InvalidAddress, s)
      | Some (GaugePointLong v) \<Rightarrow>
          (case GaugePointLong_to_point_value a s of
             (Inl e, s') \<Rightarrow> (Inl e, s') | (Inr pv, s') \<Rightarrow> (Inr (Some pv), s'))
      | Some (GaugePointDouble v) \<Rightarrow>
          (case GaugePointDouble_to_point_value a s of
             (Inl e, s') \<Rightarrow> (Inl e, s') | (Inr pv, s') \<Rightarrow> (Inr (Some pv), s'))
      | Some (DerivedGaugePoint f g) \<Rightarrow> DerivedGaugePoint_to_point_value env fo f g s)"

section \<open>get_timeseries_list\<close>

text \<open>
  The loop over \<^verbatim>\<open>points.items()\<close>, with the list \<open>ts_list\<close> it appends to. An
  exception raised by a conversion leaves the loop.
\<close>

fun timeseries_loop ::
  "'f env \<Rightarrow> 'f float_ops \<Rightarrow> 't \<Rightarrow> ('l option list \<times> addr) list \<Rightarrow>
   ('f, 'l, 't) time_series list \<Rightarrow> ('f, 'l, ('f, 'l, 't) time_series list) op" where
  "timeseries_loop env fo timestamp [] ts_list s = (Inr ts_list, s)"
| "timeseries_loop env fo timestamp ((lv, gp) # items) ts_list s =
     (case to_point_value env fo gp s of
        (Inl e, s') \<Rightarrow> (Inl e, s')
      | (Inr pv, s') \<Rightarrow>
          timeseries_loop env fo timestamp items
            (ts_list @ [TimeSeries lv [Point pv timestamp] timestamp]) s')"

definition get_timeseries_list ::
  "'f env \<Rightarrow> 'f float_ops \<Rightarrow> ('l option list \<times> addr) list \<Rightarrow> 't \<Rightarrow>
   ('f, 'l, ('f, 'l, 't) time_series list) op" where
  "get_timeseries_list env fo pts timestamp s = timeseries_loop env fo timestamp pts [] s"

section \<open>The OrderedDict\<close>

text \<open>
  \<^verbatim>\<open>d.setdefault(k, v)\<close> returns the value stored under \<open>k\<close>, after storing \<open>v\<close>
  at the end if there was none; \<^verbatim>\<open>del d[k]\<close> raises KeyError when \<open>k\<close> is not a key.
  A dictionary holds a key once.
\<close>

definition od_setdefault :: "'k \<Rightarrow> 'v \<Rightarrow> ('k \<times> 'v) list \<Rightarrow> 'v \<times> ('k \<times> 'v) list" where
  "od_setdefault k v d =
     (case map_of d k of Some v' \<Rightarrow> (v', d) | None \<Rightarrow> (v, d @ [(k, v)]))"

definition od_delitem :: "'k \<Rightarrow> ('k \<times> 'v) list \<Rightarrow> exc + ('k \<times> 'v) list" where
  "od_delitem k d =
     (case map_of d k of
        None \<Rightarrow> Inl KeyError
      | Some v \<Rightarrow> Inr (filter (\<lambda>kv. fst kv \<noteq> k) d))"

section \<open>BaseGauge\<close>

definition BaseGauge_init ::
  "gauge_class \<Rightarrow> string \<Rightarrow> string \<Rightarrow> string \<Rightarrow> string list \<Rightarrow> ('f, 'l) state" where
  "BaseGauge_init cls name description unit label_keys =
     \<lparr> heap = [], trace = [], gauge_class = cls,
       len_label_keys = length label_keys,
       default_label_values = replicate (length label_keys) None,
       descriptor = MetricDescriptor name description unit (descriptor_type cls) label_keys,
       points = [] \<rparr>"

definition remove_time_series_locked :: "'l option list \<Rightarrow> ('f, 'l, unit) op" where
  "remove_time_series_locked label_values =
     with_lock PointsLock
       (\<lambda>s. case od_delitem label_values (points s) of
              Inl e \<Rightarrow> if e = KeyError then (Inr (), s) else (Inl e, s)
            | Inr d \<Rightarrow> (Inr (), s\<lparr>points := d\<rparr>))"

text \<open>The argument is \<open>None\<close> when \<^verbatim>\<open>label_values is None\<close>.\<close>

definition remove_time_series :: "'l option list option \<Rightarrow> ('f, 'l, unit) op" where
  "remove_time_series label_values s =
     (case label_values of
        None \<Rightarrow> (Inl ValueError, s)
      | Some lvs \<Rightarrow>
          if list_ex (\<lambda>lv. lv = None) lvs then (Inl ValueError, s)
          else if length lvs \<noteq> len_label_keys s then (Inl ValueError, s)
          else remove_time_series_locked lvs s)"

definition remove_default_time_series :: "('f, 'l, unit) op" where
  "remove_default_time_series s = remove_time_series_locked (default_label_values s) s"

definition clear :: "('f, 'l, unit) op" where
  "clear = with_lock PointsLock (\<lambda>s. (Inr (), s\<lparr>points := []\<rparr>))"

definition get_metric ::
  "'f env \<Rightarrow> 'f float_ops \<Rightarrow> 't \<Rightarrow> ('f, 'l, ('f, 'l, 't) metric option) op" where
  "get_metric env fo timestamp s =
     (if points s = [] then (Inr None, s)
      else
        (case with_lock PointsLock
                (\<lambda>s. get_timeseries_list env fo (points s) timestamp s) s of
           (Inl e, s') \<Rightarrow> (Inl e, s')
         | (Inr ts_list, s') \<Rightarrow> (Inr (Some (Metric (descriptor s') ts_list)), s')))"

section \<open>Gauge and DerivedGauge\<close>

fun new_point :: "'f float_ops \<Rightarrow> point_class \<Rightarrow> 'f gauge_point" where
  "new_point fo Long = GaugePointLong_init"
| "new_point fo Double = GaugePointDouble_init fo"

text \<open>
  \<^verbatim>\<open>self.points.setdefault(tuple(label_values), self.point_type())\<close>: the argument is
  evaluated first, so a point is created on every call and dropped when the key is there.
\<close>

definition get_or_create_time_series_locked ::
  "'f float_ops \<Rightarrow> 'l option list \<Rightarrow> ('f, 'l, addr) op" where
  "get_or_create_time_series_locked fo label_values =
     with_lock PointsLock
       (\<lambda>s. case alloc (new_point fo (point_type (gauge_class s))) s of
              (a, s1) \<Rightarrow>
                (case od_setdefault label_values a (points s1) of
                   (r, d) \<Rightarrow> (Inr r, s1\<lparr>points := d\<rparr>)))"

text \<open>The methods of \<open>Gauge\<close> do not exist on a \<open>DerivedGauge\<close>, and conversely.\<close>

definition get_or_create_time_series ::
  "'f float_ops \<Rightarrow> 'l option list option \<Rightarrow> ('f, 'l, addr) op" where
  "get_or_create_time_series fo label_values s =
     (if is_derived (gauge_class s) then (Inl AttributeError, s)
      else
        (case label_values of
           None \<Rightarrow> (Inl ValueError, s)
         | Some lvs \<Rightarrow>
             if list_ex (\<lambda>lv. lv = None) lvs then (Inl ValueError, s)
             else if length lvs \<noteq> len_label_keys s then (Inl ValueError, s)
             else get_or_create_time_series_locked fo lvs s))"

definition get_or_create_default_time_series :: "'f float_ops \<Rightarrow> ('f, 'l, addr) op" where
  "get_or_create_default_time_series fo s =
     (if is_derived (gauge_class s) then (Inl AttributeError, s)
      else get_or_create_time_series_locked fo (default_label_values s) s)"

text \<open>
  \<^verbatim>\<open>self.points.setdefault(tuple(label_values), DerivedGaugePoint(func,
  self.point_type()))\<close>: the wrapped point, then the derived point, then the dictionary.
\<close>

definition create_time_series_locked ::
  "'f float_ops \<Rightarrow> 'l option list \<Rightarrow> fid \<Rightarrow> ('f, 'l, addr) op" where
  "create_time_series_locked fo label_values func =
     with_lock PointsLock
       (\<lambda>s. case alloc (new_point fo (point_type (gauge_class s))) s of
              (g, s1) \<Rightarrow>
                (case alloc (DerivedGaugePoint func g) s1 of
                   (a, s2) \<Rightarrow>
                     (case od_setdefault label_values a (points s2) of
                        (r, d) \<Rightarrow> (Inr r, s2\<lparr>points := d\<rparr>))))"

text \<open>The argument \<open>func\<close> is \<open>None\<close> when \<^verbatim>\<open>func is None\<close>.\<close>

definition create_time_series ::
  "'f float_ops \<Rightarrow> 'l option list option \<Rightarrow> fid option \<Rightarrow> ('f, 'l, addr) op" where
  "create_time_series fo label_values func s =
     (if \<not> is_derived (gauge_class s) then (Inl AttributeError, s)
      else
        (case label_values of
           None \<Rightarrow> (Inl ValueError, s)
         | Some lvs \<Rightarrow>
             if list_ex (\<lambda>lv. lv = None) lvs then (Inl ValueError, s)
             else if length lvs \<noteq> len_label_keys s then (Inl ValueError, s)
             else
               (case func of
                  None \<Rightarrow> (Inl ValueError, s)
                | Some f \<Rightarrow> create_time_series_locked fo lvs f s)))"

definition create_default_time_series :: "'f float_ops \<Rightarrow> fid option \<Rightarrow> ('f, 'l, addr) op" where
  "create_default_time_series fo func s =
     (if \<not> is_derived (gauge_class s) then (Inl AttributeError, s)
      else
        (case func of
           None \<Rightarrow> (Inl ValueError, s)
         | Some f \<Rightarrow> create_time_series_locked fo (default_label_values s) f s))"

section \<open>Well-formed states\<close>

text \<open>
  What the container keeps true of its dictionary: a tuple of label values is a key at most
  once, two keys never share a point, and every entry refers to a live object of the class
  the gauge creates (a plain point of the gauge's kind, or a derived point wrapping one).
\<close>

definition plain_at :: "('f, 'l) state \<Rightarrow> point_class \<Rightarrow> addr \<Rightarrow> bool" where
  "plain_at s c a =
     (case lookup_obj s a of
        Some (GaugePointLong v) \<Rightarrow> c = Long
      | Some (GaugePointDouble v) \<Rightarrow> c = Double
      | _ \<Rightarrow> False)"

definition entry_ok :: "('f, 'l) state \<Rightarrow> addr \<Rightarrow> bool" where
  "entry_ok s a =
     (case lookup_obj s a of
        None \<Rightarrow> False
      | Some (DerivedGaugePoint f g) \<Rightarrow>
          is_derived (gauge_class s) \<and> plain_at s (point_type (gauge_class s)) g
      | Some ob \<Rightarrow> \<not> is_derived (gauge_class s) \<and> plain_at s (point_type (gauge_class s)) a)"

definition wf_state :: "('f, 'l) state \<Rightarrow> bool" where
  "wf_state s \<longleftrightarrow>
     distinct (map fst (points s)) \<and> distinct (map snd (points s)) \<and>
     list_all (entry_ok s) (map snd (points s))"

text \<open>
  What an operation on a point may change: it leaves the gauge's own fields alone, creates
  no object, keeps every object in its class, and logs no event of the map lock.
\<close>

fun same_class :: "'f gauge_point \<Rightarrow> 'f gauge_point \<Rightarrow> bool" where
  "same_class (GaugePointLong v) (GaugePointLong w) = True"
| "same_class (GaugePointDouble v) (GaugePointDouble w) = True"
| "same_class (DerivedGaugePoint f g) (DerivedGaugePoint f' g') = (f = f' \<and> g = g')"
| "same_class x y = False"

definition point_step :: "('f, 'l) state \<Rightarrow> ('f, 'l) state \<Rightarrow> bool" where
  "point_step s s' \<longleftrightarrow>
     points s' = points s \<and> gauge_class s' = gauge_class s \<and> descriptor s' = descriptor s \<and>
     len_label_keys s' = len_label_keys s \<and> default_label_values s' = default_label_values s \<and>
     length (heap s') = length (heap s) \<and>
     (\<forall>a < length (heap s). same_class (heap s ! a) (heap s' ! a)) \<and>
     (\<exists>evs. trace s' = trace s @ evs \<and> Acquire PointsLock \<notin> set evs \<and>
        Release PointsLock \<notin> set evs)"

text \<open>
  The state after a tracked function \<open>f\<close> was called and the wrapped point \<open>g\<close>
  took its result under the value lock.
\<close>

definition stored :: "fid \<Rightarrow> addr \<Rightarrow> 'f gauge_point \<Rightarrow> ('f, 'l) state \<Rightarrow> ('f, 'l) state" where
  "stored f g ob s =
     log_event (Release (ValueLock g))
       (store_obj g ob (log_event (Acquire (ValueLock g)) (log_event (Invoke f) s)))"

section \<open>Calls and the map lock\<close>




section \<open>Example gauges\<close>

text \<open>An instance of the float operations: exact rationals, no string parses.\<close>

definition ideal_floats :: "rat float_ops" where
  "ideal_floats =
     \<lparr> float_zero = 0, float_of_int = (\<lambda>i. Some (of_int i)),
       float_of_str = (\<lambda>s. None), float_add = (+) \<rparr>"

definition requests_gauge :: "gauge_class \<Rightarrow> (rat, string) state" where
  "requests_gauge cls = BaseGauge_init cls ''requests'' ''requests seen'' ''1'' [''method'']"

text \<open>A \<open>LongGauge\<close> after \<^verbatim>\<open>get_or_create_time_series(["GET"])\<close>.\<close>

definition long_gauge_GET :: "(rat, string) state" where
  "long_gauge_GET =
     snd (get_or_create_time_series ideal_floats (Some [Some ''GET'']) (requests_gauge LongGauge))"

text \<open>A \<open>DerivedLongGauge\<close> after \<^verbatim>\<open>create_time_series(["GET"], f)\<close> for the function 7.\<close>

definition derived_long_gauge_GET :: "(rat, string) state" where
  "derived_long_gauge_GET =
     snd (create_time_series ideal_floats (Some [Some ''GET'']) (Some 7)
            (requests_gauge DerivedLongGauge))"

text \<open>An environment in which every tracked function is live and raises when called.\<close>

definition raising_env :: "rat env" where
  "raising_env = (\<lambda>f. Live (Raises (OtherError ''RuntimeError'')))"

text \<open>The same gauge after \<^verbatim>\<open>get_or_create_time_series(["POST"])\<close> as well.\<close>

definition long_gauge_GET_POST :: "(rat, string) state" where
  "long_gauge_GET_POST =
     snd (get_or_create_time_series ideal_floats (Some [Some ''POST'']) long_gauge_GET)"

text \<open>That gauge after \<^verbatim>\<open>remove_time_series(["GET"])\<close>.\<close>

definition long_gauge_POST :: "(rat, string) state" where
  "long_gauge_POST = snd (remove_time_series (Some [Some ''GET'']) long_gauge_GET_POST)"

text \<open>A \<open>DerivedDoubleGauge\<close> after \<^verbatim>\<open>create_time_series(["GET"], f)\<close> for the function 7.\<close>

definition derived_double_gauge_GET :: "(rat, string) state" where
  "derived_double_gauge_GET =
     snd (create_time_series ideal_floats (Some [Some ''GET'']) (Some 7)
            (requests_gauge DerivedDoubleGauge))"

text \<open>Environments: every target collected; the function 7 returns \<open>v\<close>, any other \<open>w\<close>.\<close>

definition collected_env :: "rat env" where
  "collected_env = (\<lambda>f. Collected)"

definition returning_env :: "rat pyval \<Rightarrow> rat pyval \<Rightarrow> rat env" where
  "returning_env v w = (\<lambda>f. if f = 7 then Live (Returns v) else Live (Returns w))"



section \<open>Basic facts\<close>

lemmas state_simps = point_step_def log_event_def store_obj_def lookup_obj_def with_lock_def

lemmas scenario_simps =
  requests_gauge_def BaseGauge_init_def ideal_floats_def
  get_or_create_time_series_def get_or_create_time_series_locked_def
  create_time_series_def create_time_series_locked_def
  alloc_def od_setdefault_def od_delitem_def GaugePointLong_init_def GaugePointDouble_init_def
  log_event_def store_obj_def lookup_obj_def with_lock_def

lemma isinstance_int_as_int: "isinstance_int v \<longleftrightarrow> (\<exists>i. as_int v = Some i)"
  by (cases v) auto

lemma py_add_ints:
  "as_int v = Some i \<Longrightarrow> as_int w = Some j \<Longrightarrow> py_add fo v w = Inr (PyInt (i + j))"
  by (simp add: py_add_def)

lemma lookup_store_same: "a < length (heap s) \<Longrightarrow> lookup_obj (store_obj a ob s) a = Some ob"
  by (simp add: lookup_obj_def store_obj_def)

lemma lookup_log [simp]: "lookup_obj (log_event e s) a = lookup_obj s a"
  by (simp add: lookup_obj_def log_event_def)

lemma lookup_SomeD: "lookup_obj s a = Some ob \<Longrightarrow> a < length (heap s)"
  by (simp add: lookup_obj_def split: if_splits)

lemma long_gauge_GET_eq:
  "long_gauge_GET =
     \<lparr> heap = [GaugePointLong (PyInt 0)], trace = [Acquire PointsLock, Release PointsLock],
       gauge_class = LongGauge, len_label_keys = 1, default_label_values = [None],
       descriptor = MetricDescriptor ''requests'' ''requests seen'' ''1'' GAUGE_INT64 [''method''],
       points = [([Some ''GET''], 0)] \<rparr>"
  by (simp add: long_gauge_GET_def scenario_simps)

lemma same_class_refl [simp]: "same_class ob ob"
  by (cases ob) auto

lemma same_class_trans: "same_class x y \<Longrightarrow> same_class y z \<Longrightarrow> same_class x z"
  by (cases x; cases y; cases z) auto

lemma point_step_refl [simp]: "point_step s s"
  by (simp add: point_step_def)

lemma point_step_trans:
  assumes "point_step s s'" "point_step s' s''" shows "point_step s s''"
proof -
  from assms obtain e1 e2 where
    t: "trace s' = trace s @ e1" "trace s'' = trace s' @ e2"
    and n: "Acquire PointsLock \<notin> set e1" "Release PointsLock \<notin> set e1"
       "Acquire PointsLock \<notin> set e2" "Release PointsLock \<notin> set e2"
    unfolding point_step_def by blast
  have "trace s'' = trace s @ (e1 @ e2) \<and> Acquire PointsLock \<notin> set (e1 @ e2) \<and>
        Release PointsLock \<notin> set (e1 @ e2)"
    using t n by simp
  then have ex: "\<exists>evs. trace s'' = trace s @ evs \<and> Acquire PointsLock \<notin> set evs \<and>
        Release PointsLock \<notin> set evs" by blast
  have cl: "\<forall>a < length (heap s). same_class (heap s ! a) (heap s'' ! a)"
    using assms unfolding point_step_def by (metis same_class_trans)
  show ?thesis
    using assms ex cl unfolding point_step_def by simp
qed

lemma point_step_log: "e \<noteq> Acquire PointsLock \<Longrightarrow> e \<noteq> Release PointsLock \<Longrightarrow> point_step s (log_event e s)"
  by (simp add: point_step_def log_event_def)

lemma point_step_set_value: "set_value fo a val s = (r, s') \<Longrightarrow> point_step s s'"
  by (auto simp: set_value_def GaugePointLong_set_def GaugePointDouble_set_def state_simps
      nth_list_update split: if_splits option.splits gauge_point.splits sum.splits)

lemma point_step_add: "add fo a val s = (r, s') \<Longrightarrow> point_step s s'"
  by (auto simp: add_def GaugePointLong_add_def GaugePointDouble_add_def self_value_def state_simps
      nth_list_update split: if_splits option.splits gauge_point.splits sum.splits)

lemma point_step_evaluate_and_store:
  "evaluate_and_store env fo f g s = (r, s') \<Longrightarrow> point_step s s'"
proof -
  have l: "point_step s (log_event (Invoke f) s)" by (simp add: point_step_log)
  assume "evaluate_and_store env fo f g s = (r, s')"
  then show ?thesis
    unfolding evaluate_and_store_def using l
    by (auto split: weak_target.splits outcome.splits
        intro: point_step_trans[OF l point_step_set_value])
qed

lemma wrapped_get_value_state: "wrapped_get_value g s = (r, s') \<Longrightarrow> s' = s"
  by (auto simp: wrapped_get_value_def GaugePointLong_get_value_def GaugePointDouble_get_value_def
      split: option.splits gauge_point.splits)

lemma wrapped_to_point_value_state: "wrapped_to_point_value g s = (r, s') \<Longrightarrow> s' = s"
  by (auto simp: wrapped_to_point_value_def GaugePointLong_to_point_value_def
      GaugePointDouble_to_point_value_def split: option.splits gauge_point.splits sum.splits)

lemma point_step_Derived_get_value:
  "DerivedGaugePoint_get_value env fo f g s = (r, s') \<Longrightarrow> point_step s s'"
  unfolding DerivedGaugePoint_get_value_def
  by (auto split: prod.splits sum.splits if_splits
      dest: point_step_evaluate_and_store wrapped_get_value_state)

lemma point_step_Derived_to_point_value:
  "DerivedGaugePoint_to_point_value env fo f g s = (r, s') \<Longrightarrow> point_step s s'"
  unfolding DerivedGaugePoint_to_point_value_def
  by (auto split: prod.splits sum.splits if_splits
      dest: point_step_Derived_get_value wrapped_to_point_value_state)

lemma point_step_get_value: "get_value env fo a s = (r, s') \<Longrightarrow> point_step s s'"
  by (auto simp: get_value_def GaugePointLong_get_value_def GaugePointDouble_get_value_def
      split: option.splits gauge_point.splits dest: point_step_Derived_get_value)

lemma point_step_to_point_value: "to_point_value env fo a s = (r, s') \<Longrightarrow> point_step s s'"
  by (auto simp: to_point_value_def GaugePointLong_to_point_value_def
      GaugePointDouble_to_point_value_def
      split: option.splits gauge_point.splits sum.splits dest: point_step_Derived_to_point_value)

lemma point_step_timeseries_loop:
  "timeseries_loop env fo t items acc s = (r, s') \<Longrightarrow> point_step s s'"
proof (induction items arbitrary: acc s)
  case Nil
  then show ?case by simp
next
  case (Cons x items)
  obtain lv gp where x: "x = (lv, gp)" by (cases x)
  obtain r1 s1 where c: "to_point_value env fo gp s = (r1, s1)"
    by (cases "to_point_value env fo gp s")
  have st: "point_step s s1" using c by (rule point_step_to_point_value)
  show ?case
  proof (cases r1)
    case (Inl e)
    with Cons.prems x c st show ?thesis by simp
  next
    case (Inr pv)
    with Cons.prems x c
    have "timeseries_loop env fo t items (acc @ [TimeSeries lv [Point pv t] t]) s1 = (r, s')"
      by simp
    then have "point_step s1 s'" by (rule Cons.IH)
    with st show ?thesis by (rule point_step_trans)
  qed
qed

lemma timeseries_loop_shape:
  "timeseries_loop env fo t items acc s = (Inr tss, s') \<Longrightarrow>
   \<exists>new. tss = acc @ new \<and> map ts_label_values new = map fst items \<and>
     (\<forall>ts \<in> set new. \<exists>pv. ts_points ts = [Point pv t]) \<and>
     (\<forall>ts \<in> set new. ts_start_timestamp ts = t)"
proof (induction items arbitrary: acc s)
  case Nil
  then show ?case by simp
next
  case (Cons x items)
  obtain lv gp where x: "x = (lv, gp)" by (cases x)
  obtain r1 s1 where c: "to_point_value env fo gp s = (r1, s1)"
    by (cases "to_point_value env fo gp s")
  show ?case
  proof (cases r1)
    case (Inl e)
    with Cons.prems x c show ?thesis by simp
  next
    case (Inr pv)
    let ?ts = "TimeSeries lv [Point pv t] t"
    from Inr Cons.prems x c
    have "timeseries_loop env fo t items (acc @ [?ts]) s1 = (Inr tss, s')"
      by simp
    from Cons.IH[OF this] obtain new where
      n: "tss = (acc @ [?ts]) @ new" "map ts_label_values new = map fst items"
         "\<forall>ts \<in> set new. \<exists>pv. ts_points ts = [Point pv t]"
         "\<forall>ts \<in> set new. ts_start_timestamp ts = t"
      by blast
    have "tss = acc @ (?ts # new) \<and> map ts_label_values (?ts # new) = map fst (x # items) \<and>
      (\<forall>ts \<in> set (?ts # new). \<exists>pv. ts_points ts = [Point pv t]) \<and>
      (\<forall>ts \<in> set (?ts # new). ts_start_timestamp ts = t)"
      using n x by simp
    then show ?thesis by blast
  qed
qed

lemma plain_to_point_value:
  "plain_at s c a \<Longrightarrow> \<exists>pv. to_point_value env fo a s = (Inr (Some pv), s)"
  by (auto simp: plain_at_def to_point_value_def GaugePointLong_to_point_value_def
      GaugePointDouble_to_point_value_def self_value_def
      split: option.splits gauge_point.splits)

lemma plain_timeseries_loop:
  "\<forall>a \<in> set (map snd items). plain_at s c a \<Longrightarrow>
   \<exists>tss. timeseries_loop env fo t items acc s = (Inr tss, s)"
proof (induction items arbitrary: acc)
  case Nil
  then show ?case by simp
next
  case (Cons x items)
  obtain lv gp where x: "x = (lv, gp)" by (cases x)
  with Cons.prems have "plain_at s c gp" by simp
  then obtain pv where "to_point_value env fo gp s = (Inr (Some pv), s)"
    using plain_to_point_value by blast
  moreover have "\<exists>tss. timeseries_loop env fo t items
      (acc @ [TimeSeries lv [Point (Some pv) t] t]) s = (Inr tss, s)"
    using Cons.prems by (intro Cons.IH) simp
  ultimately show ?case using x by simp
qed

lemma wf_direct_entries:
  "wf_state s \<Longrightarrow> \<not> is_derived (gauge_class s) \<Longrightarrow>
   \<forall>a \<in> set (map snd (points s)). plain_at s (point_type (gauge_class s)) a"
proof
  fix a
  assume wf: "wf_state s" and nd: "\<not> is_derived (gauge_class s)"
    and a: "a \<in> set (map snd (points s))"
  from wf a have "entry_ok s a" by (auto simp: wf_state_def list_all_iff)
  with nd show "plain_at s (point_type (gauge_class s)) a"
    by (cases "lookup_obj s a") (auto simp: entry_ok_def split: gauge_point.splits)
qed

lemma get_metric_Some_shape:
  assumes "get_metric env fo t s = (Inr (Some m), s')"
  shows "map ts_label_values (m_time_series m) = map fst (points s) \<and>
     (\<forall>ts \<in> set (m_time_series m). \<exists>pv. ts_points ts = [Point pv t]) \<and>
     (\<forall>ts \<in> set (m_time_series m). ts_start_timestamp ts = t) \<and>
     m_descriptor m = descriptor s"
proof -
  let ?s1 = "log_event (Acquire PointsLock) s"
  obtain r1 s2 where l: "timeseries_loop env fo t (points s) [] ?s1 = (r1, s2)"
    by (cases "timeseries_loop env fo t (points s) [] ?s1")
  have ps: "points ?s1 = points s" by (simp add: log_event_def)
  from assms l ps have ne: "points s \<noteq> []" and r1: "r1 = Inr (m_time_series m)"
    and d: "m_descriptor m = descriptor (log_event (Release PointsLock) s2)"
    by (auto simp: get_metric_def with_lock_def get_timeseries_list_def
        split: if_splits sum.splits)
  have "point_step ?s1 s2" using l by (rule point_step_timeseries_loop)
  then have "descriptor s2 = descriptor s" by (simp add: point_step_def log_event_def)
  with d have "m_descriptor m = descriptor s" by (simp add: log_event_def)
  moreover from timeseries_loop_shape[OF l[unfolded r1]]
  have "map ts_label_values (m_time_series m) = map fst (points s) \<and>
     (\<forall>ts \<in> set (m_time_series m). \<exists>pv. ts_points ts = [Point pv t]) \<and>
     (\<forall>ts \<in> set (m_time_series m). ts_start_timestamp ts = t)"
    by auto
  ultimately show ?thesis by simp
qed

lemma get_metric_empty: "points s = [] \<Longrightarrow> get_metric env fo t s = (Inr None, s)"
  by (simp add: get_metric_def)



lemma get_metric_direct:
  assumes "wf_state s" "\<not> is_derived (gauge_class s)" "points s \<noteq> []"
  shows "\<exists>m. get_metric env fo t s =
           (Inr (Some m), log_event (Release PointsLock) (log_event (Acquire PointsLock) s))"
proof -
  let ?s1 = "log_event (Acquire PointsLock) s"
  have "\<forall>a \<in> set (map snd (points s)). plain_at ?s1 (point_type (gauge_class s)) a"
    using wf_direct_entries[OF assms(1,2)] by (simp add: plain_at_def)
  then have "\<exists>tss. timeseries_loop env fo t (points s) [] ?s1 = (Inr tss, ?s1)"
    by (rule plain_timeseries_loop)
  then obtain tss where "timeseries_loop env fo t (points s) [] ?s1 = (Inr tss, ?s1)" ..
  moreover have "points ?s1 = points s" by (simp add: log_event_def)
  ultimately show ?thesis using assms(3)
    by (simp add: get_metric_def with_lock_def get_timeseries_list_def)
qed

section \<open>The invariant is kept\<close>

lemma lookup_same_class:
  assumes "point_step s s'" "lookup_obj s a = Some ob"
  shows "\<exists>ob'. lookup_obj s' a = Some ob' \<and> same_class ob ob'"
  using assms by (auto simp: point_step_def lookup_obj_def split: if_splits)

lemma plain_at_point_step:
  assumes "point_step s s'" "plain_at s c a" shows "plain_at s' c a"
proof -
  from assms(2) obtain ob where ob: "lookup_obj s a = Some ob"
    by (auto simp: plain_at_def split: option.splits)
  from lookup_same_class[OF assms(1) ob] obtain ob' where
    "lookup_obj s' a = Some ob'" "same_class ob ob'" by blast
  with assms(2) ob show ?thesis
    by (cases ob; cases ob') (auto simp: plain_at_def)
qed

lemma entry_ok_point_step:
  assumes "point_step s s'" "entry_ok s a" shows "entry_ok s' a"
proof -
  from assms(2) obtain ob where ob: "lookup_obj s a = Some ob"
    by (auto simp: entry_ok_def split: option.splits)
  from lookup_same_class[OF assms(1) ob] obtain ob' where
    ob': "lookup_obj s' a = Some ob'" "same_class ob ob'" by blast
  have gc: "gauge_class s' = gauge_class s" using assms(1) by (simp add: point_step_def)
  show ?thesis
  proof (cases ob)
    case (DerivedGaugePoint f g)
    with ob' obtain "ob' = DerivedGaugePoint f g" by (cases ob') auto
    moreover from assms(2) ob DerivedGaugePoint
    have "is_derived (gauge_class s)" "plain_at s (point_type (gauge_class s)) g"
      by (auto simp: entry_ok_def)
    ultimately show ?thesis
      using ob' gc plain_at_point_step[OF assms(1)] by (simp add: entry_ok_def)
  next
    case (GaugePointLong v)
    with ob' obtain w where "ob' = GaugePointLong w" by (cases ob') auto
    moreover from assms(2) ob GaugePointLong
    have "\<not> is_derived (gauge_class s)" "plain_at s (point_type (gauge_class s)) a"
      by (auto simp: entry_ok_def)
    ultimately show ?thesis
      using ob' gc plain_at_point_step[OF assms(1)] by (simp add: entry_ok_def)
  next
    case (GaugePointDouble v)
    with ob' obtain w where "ob' = GaugePointDouble w" by (cases ob') auto
    moreover from assms(2) ob GaugePointDouble
    have "\<not> is_derived (gauge_class s)" "plain_at s (point_type (gauge_class s)) a"
      by (auto simp: entry_ok_def)
    ultimately show ?thesis
      using ob' gc plain_at_point_step[OF assms(1)] by (simp add: entry_ok_def)
  qed
qed

lemma wf_state_point_step:
  assumes "wf_state s" "point_step s s'" shows "wf_state s'"
proof -
  have "points s' = points s" using assms(2) by (simp add: point_step_def)
  then show ?thesis
    using assms(1) entry_ok_point_step[OF assms(2)]
    by (auto simp: wf_state_def list_all_iff)
qed

lemma wf_state_init: "wf_state (BaseGauge_init cls name description unit label_keys)"
  by (simp add: wf_state_def BaseGauge_init_def)

text \<open>Growing the store, and logging, keep the entries well-formed.\<close>

lemma lookup_grow:
  "heap s' = heap s @ xs \<Longrightarrow> lookup_obj s a = Some ob \<Longrightarrow> lookup_obj s' a = Some ob"
  by (auto simp: lookup_obj_def nth_append split: if_splits)

lemma plain_at_grow:
  "heap s' = heap s @ xs \<Longrightarrow> plain_at s c a \<Longrightarrow> plain_at s' c a"
  by (auto simp: plain_at_def lookup_obj_def nth_append split: if_splits)

lemma entry_ok_grow:
  assumes "heap s' = heap s @ xs" "gauge_class s' = gauge_class s" "entry_ok s a"
  shows "entry_ok s' a"
proof -
  from assms(3) obtain ob where ob: "lookup_obj s a = Some ob"
    by (auto simp: entry_ok_def split: option.splits)
  then have ob': "lookup_obj s' a = Some ob" using assms(1) by (rule lookup_grow[rotated])
  show ?thesis
    using assms(3) ob ob' assms(2) plain_at_grow[OF assms(1)]
    by (cases ob) (auto simp: entry_ok_def)
qed

lemma entry_ok_bound: "entry_ok s a \<Longrightarrow> a < length (heap s)"
  by (auto simp: entry_ok_def lookup_obj_def split: option.splits if_splits)

lemma map_of_None_keys: "map_of d k = None \<Longrightarrow> k \<notin> set (map fst d)"
  by (simp add: map_of_eq_None_iff)

lemma wf_state_get_or_create_locked:
  assumes wf: "wf_state s" and nd: "\<not> is_derived (gauge_class s)"
    and r: "get_or_create_time_series_locked fo lvs s = (r, s')"
  shows "wf_state s'"
proof -
  let ?a = "length (heap s)"
  let ?ob = "new_point fo (point_type (gauge_class s))"
  let ?h = "heap s @ [?ob]"
  have old: "\<forall>a \<in> set (map snd (points s)). entry_ok s a"
    using wf by (auto simp: wf_state_def list_all_iff)
  show ?thesis
  proof (cases "map_of (points s) lvs")
    case (Some v)
    with r have s': "heap s' = ?h" "gauge_class s' = gauge_class s" "points s' = points s"
      by (auto simp: get_or_create_time_series_locked_def with_lock_def alloc_def
          od_setdefault_def log_event_def)
    have "\<forall>a \<in> set (map snd (points s)). entry_ok s' a"
      using old entry_ok_grow[OF s'(1,2)] by blast
    with wf s'(3) show ?thesis by (auto simp: wf_state_def list_all_iff)
  next
    case None
    with r have s': "heap s' = ?h" "gauge_class s' = gauge_class s"
      "points s' = points s @ [(lvs, ?a)]"
      by (auto simp: get_or_create_time_series_locked_def with_lock_def alloc_def
          od_setdefault_def log_event_def)
    have o: "\<forall>a \<in> set (map snd (points s)). entry_ok s' a"
      using old entry_ok_grow[OF s'(1,2)] by blast
    have fresh: "?a \<notin> set (map snd (points s))"
      using old entry_ok_bound by blast
    have key: "lvs \<notin> set (map fst (points s))" using None by (rule map_of_None_keys)
    have new: "entry_ok s' ?a"
      using nd s'(1,2)
      by (cases "point_type (gauge_class s)")
        (auto simp: entry_ok_def plain_at_def lookup_obj_def GaugePointLong_init_def
          GaugePointDouble_init_def)
    from wf o fresh key new s'(3) show ?thesis
      by (auto simp: wf_state_def list_all_iff)
  qed
qed

lemma wf_state_get_or_create:
  "wf_state s \<Longrightarrow> get_or_create_time_series fo lv s = (r, s') \<Longrightarrow> wf_state s'"
  by (auto simp: get_or_create_time_series_def split: if_splits option.splits
      dest: wf_state_get_or_create_locked)

lemma wf_state_create_locked:
  assumes wf: "wf_state s" and nd: "is_derived (gauge_class s)"
    and r: "create_time_series_locked fo lvs f s = (r, s')"
  shows "wf_state s'"
proof -
  let ?g = "length (heap s)"
  let ?a = "Suc (length (heap s))"
  let ?ob = "new_point fo (point_type (gauge_class s))"
  let ?h = "heap s @ [?ob, DerivedGaugePoint f ?g]"
  have old: "\<forall>a \<in> set (map snd (points s)). entry_ok s a"
    using wf by (auto simp: wf_state_def list_all_iff)
  show ?thesis
  proof (cases "map_of (points s) lvs")
    case (Some v)
    with r have s': "heap s' = ?h" "gauge_class s' = gauge_class s" "points s' = points s"
      by (auto simp: create_time_series_locked_def with_lock_def alloc_def
          od_setdefault_def log_event_def)
    have "\<forall>a \<in> set (map snd (points s)). entry_ok s' a"
      using old entry_ok_grow[OF s'(1,2)] by blast
    with wf s'(3) show ?thesis by (auto simp: wf_state_def list_all_iff)
  next
    case None
    with r have s': "heap s' = ?h" "gauge_class s' = gauge_class s"
      "points s' = points s @ [(lvs, ?a)]"
      by (auto simp: create_time_series_locked_def with_lock_def alloc_def
          od_setdefault_def log_event_def)
    have o: "\<forall>a \<in> set (map snd (points s)). entry_ok s' a"
      using old entry_ok_grow[OF s'(1,2)] by blast
    have fresh: "?a \<notin> set (map snd (points s))"
      using old entry_ok_bound by fastforce
    have key: "lvs \<notin> set (map fst (points s))" using None by (rule map_of_None_keys)
    have new: "entry_ok s' ?a"
      using nd s'(1,2)
      by (cases "point_type (gauge_class s)")
        (auto simp: entry_ok_def plain_at_def lookup_obj_def GaugePointLong_init_def
          GaugePointDouble_init_def nth_append)
    from wf o fresh key new s'(3) show ?thesis
      by (auto simp: wf_state_def list_all_iff)
  qed
qed

lemma wf_state_create:
  "wf_state s \<Longrightarrow> create_time_series fo lv func s = (r, s') \<Longrightarrow> wf_state s'"
  by (auto simp: create_time_series_def split: if_splits option.splits
      dest: wf_state_create_locked)

lemma remove_locked_result:
  "remove_time_series_locked lvs s =
     (Inr (), log_event (Release PointsLock)
        ((log_event (Acquire PointsLock) s)\<lparr>points := filter (\<lambda>kv. fst kv \<noteq> lvs) (points s)\<rparr>))"
proof (cases "map_of (points s) lvs")
  case None
  then have "lvs \<notin> set (map fst (points s))" by (rule map_of_None_keys)
  then have "filter (\<lambda>kv. fst kv \<noteq> lvs) (points s) = points s"
    by (auto simp: filter_id_conv)
  with None show ?thesis
    by (simp add: remove_time_series_locked_def with_lock_def od_delitem_def log_event_def)
next
  case (Some v)
  then show ?thesis
    by (simp add: remove_time_series_locked_def with_lock_def od_delitem_def log_event_def)
qed

lemma wf_state_filter:
  assumes "wf_state s" "heap s' = heap s" "gauge_class s' = gauge_class s"
    "points s' = filter P (points s)"
  shows "wf_state s'"
proof -
  have e: "\<And>a. entry_ok s a \<Longrightarrow> entry_ok s' a"
    using entry_ok_grow[of s' s "[]"] assms(2,3) by simp
  show ?thesis
    using assms(1,4) e
    by (auto simp: wf_state_def list_all_iff distinct_map_filter)
qed

lemma wf_state_remove_locked:
  "wf_state s \<Longrightarrow> remove_time_series_locked lvs s = (r, s') \<Longrightarrow> wf_state s'"
proof -
  assume wf: "wf_state s" and r: "remove_time_series_locked lvs s = (r, s')"
  from r have "heap s' = heap s" "gauge_class s' = gauge_class s"
    "points s' = filter (\<lambda>kv. fst kv \<noteq> lvs) (points s)"
    by (auto simp: remove_locked_result log_event_def)
  with wf show "wf_state s'" by (rule wf_state_filter)
qed

lemma wf_state_remove:
  "wf_state s \<Longrightarrow> remove_time_series lv s = (r, s') \<Longrightarrow> wf_state s'"
  by (auto simp: remove_time_series_def split: if_splits option.splits
      dest: wf_state_remove_locked)

lemma wf_state_clear: "clear s = (r, s') \<Longrightarrow> wf_state s'"
  by (auto simp: clear_def with_lock_def log_event_def wf_state_def)

section \<open>Creating and removing entries\<close>

lemma list_ex_None: "list_ex (\<lambda>lv. lv = None) lvs \<longleftrightarrow> None \<in> set lvs"
  by (auto simp: list_ex_iff)

lemma get_or_create_locked_result:
  assumes "get_or_create_time_series_locked fo lvs s = (r, s')"
  shows "heap s' = heap s @ [new_point fo (point_type (gauge_class s))] \<and>
     gauge_class s' = gauge_class s \<and> len_label_keys s' = len_label_keys s \<and>
     (case map_of (points s) lvs of
        Some v \<Rightarrow> r = Inr v \<and> points s' = points s
      | None \<Rightarrow> r = Inr (length (heap s)) \<and> points s' = points s @ [(lvs, length (heap s))])"
  using assms
  by (auto simp: get_or_create_time_series_locked_def with_lock_def alloc_def
      od_setdefault_def log_event_def split: option.splits)


lemma get_or_create_Inr:
  assumes "get_or_create_time_series fo (Some lvs) s = (Inr a, s')"
  shows "\<not> is_derived (gauge_class s) \<and> None \<notin> set lvs \<and> length lvs = len_label_keys s \<and>
    get_or_create_time_series_locked fo lvs s = (Inr a, s')"
  using assms
  by (auto simp: get_or_create_time_series_def list_ex_None split: if_splits)

lemma get_or_create_locked_returns:
  "\<exists>a s'. get_or_create_time_series_locked fo lvs s = (Inr a, s')"
  by (auto simp: get_or_create_time_series_locked_def with_lock_def alloc_def
      od_setdefault_def split: option.splits prod.splits)




lemma map_of_filter_other:
  "k \<noteq> k' \<Longrightarrow> map_of (filter (\<lambda>kv. fst kv \<noteq> k') d) k = map_of d k"
  by (induction d) auto

lemma long_gauge_GET_POST_eq:
  "long_gauge_GET_POST =
     \<lparr> heap = [GaugePointLong (PyInt 0), GaugePointLong (PyInt 0)],
       trace = [Acquire PointsLock, Release PointsLock, Acquire PointsLock, Release PointsLock],
       gauge_class = LongGauge, len_label_keys = 1, default_label_values = [None],
       descriptor = MetricDescriptor ''requests'' ''requests seen'' ''1'' GAUGE_INT64 [''method''],
       points = [([Some ''GET''], 0), ([Some ''POST''], 1)] \<rparr>"
  by (simp add: long_gauge_GET_POST_def long_gauge_GET_eq scenario_simps)

lemma wf_long_gauge_GET: "wf_state long_gauge_GET"
  unfolding long_gauge_GET_def requests_gauge_def
  by (rule wf_state_get_or_create[OF wf_state_init]) (rule surjective_pairing)



lemma keys_get_or_create:
  assumes "get_or_create_time_series fo lv s = (r, s')" "lv \<noteq> Some lvs"
    "lvs \<notin> set (map fst (points s))"
  shows "lvs \<notin> set (map fst (points s'))"
proof (cases r)
  case (Inl e)
  have "False" if "get_or_create_time_series_locked fo l s = (Inl e, s')" for l
    using get_or_create_locked_returns[of fo l s] that by auto
  with assms(1) Inl have "s' = s"
    by (auto simp: get_or_create_time_series_def split: if_splits option.splits)
  with assms(3) show ?thesis by simp
next
  case (Inr a)
  with assms(1) obtain l where l: "lv = Some l" 
    by (cases lv) (auto simp: get_or_create_time_series_def split: if_splits)
  with assms(1) Inr have "get_or_create_time_series_locked fo l s = (Inr a, s')"
    using get_or_create_Inr by blast
  from get_or_create_locked_result[OF this] assms(2,3) l show ?thesis
    by (cases "map_of (points s) l") auto
qed

lemma create_locked_result:
  assumes "create_time_series_locked fo lvs f s = (r, s')"
  shows "heap s' = heap s @ [new_point fo (point_type (gauge_class s)),
            DerivedGaugePoint f (length (heap s))] \<and>
     gauge_class s' = gauge_class s \<and> len_label_keys s' = len_label_keys s \<and>
     (case map_of (points s) lvs of
        Some v \<Rightarrow> r = Inr v \<and> points s' = points s
      | None \<Rightarrow> r = Inr (Suc (length (heap s))) \<and>
          points s' = points s @ [(lvs, Suc (length (heap s)))])"
  using assms
  by (auto simp: create_time_series_locked_def with_lock_def alloc_def
      od_setdefault_def log_event_def split: option.splits)

lemma create_Inr:
  assumes "create_time_series fo lv func s = (Inr a, s')"
  shows "\<exists>lvs f. lv = Some lvs \<and> func = Some f \<and> is_derived (gauge_class s) \<and>
    None \<notin> set lvs \<and> length lvs = len_label_keys s \<and>
    create_time_series_locked fo lvs f s = (Inr a, s')"
  using assms
  by (auto simp: create_time_series_def list_ex_None split: if_splits option.splits)

lemma create_Inl:
  assumes "create_time_series fo lv func s = (Inl e, s')"
  shows "s' = s"
proof -
  have "False" if "create_time_series_locked fo l f s = (Inl e, s')" for l f
    using that
    by (auto simp: create_time_series_locked_def with_lock_def alloc_def
        od_setdefault_def split: option.splits)
  with assms show ?thesis
    by (auto simp: create_time_series_def split: if_splits option.splits)
qed

lemma keys_create:
  assumes "create_time_series fo lv func s = (r, s')" "lv \<noteq> Some lvs"
    "lvs \<notin> set (map fst (points s))"
  shows "lvs \<notin> set (map fst (points s'))"
proof (cases r)
  case (Inl e)
  with assms(1) have "s' = s" using create_Inl by blast
  with assms(3) show ?thesis by simp
next
  case (Inr a)
  with assms(1) obtain l f where l: "lv = Some l"
    and c: "create_time_series_locked fo l f s = (Inr a, s')"
    using create_Inr by blast
  from create_locked_result[OF c] assms(2,3) l show ?thesis
    by (cases "map_of (points s) l") auto
qed

lemma keys_remove:
  assumes "remove_time_series lv s = (r, s')"
  shows "set (map fst (points s')) \<subseteq> set (map fst (points s))"
  using assms
  by (auto simp: remove_time_series_def remove_locked_result log_event_def
      split: option.splits if_splits)

lemma get_metric_point_step:
  assumes "get_metric env fo t s = (r, s')"
  shows "points s' = points s"
proof (cases "points s = []")
  case True
  with assms show ?thesis by (simp add: get_metric_def)
next
  case False
  let ?s1 = "log_event (Acquire PointsLock) s"
  obtain r1 s2 where l: "timeseries_loop env fo t (points s) [] ?s1 = (r1, s2)"
    by (cases "timeseries_loop env fo t (points s) [] ?s1")
  have ps: "points ?s1 = points s" by (simp add: log_event_def)
  from assms l ps False have "s' = log_event (Release PointsLock) s2"
    by (auto simp: get_metric_def with_lock_def get_timeseries_list_def split: sum.splits)
  moreover have "point_step ?s1 s2" using l by (rule point_step_timeseries_loop)
  ultimately show ?thesis by (simp add: point_step_def log_event_def)
qed

lemma long_gauge_POST_eq:
  "long_gauge_POST =
     \<lparr> heap = [GaugePointLong (PyInt 0), GaugePointLong (PyInt 0)],
       trace = [Acquire PointsLock, Release PointsLock, Acquire PointsLock, Release PointsLock,
                Acquire PointsLock, Release PointsLock],
       gauge_class = LongGauge, len_label_keys = 1, default_label_values = [None],
       descriptor = MetricDescriptor ''requests'' ''requests seen'' ''1'' GAUGE_INT64 [''method''],
       points = [([Some ''POST''], 1)] \<rparr>"
  by (simp add: long_gauge_POST_def long_gauge_GET_POST_eq remove_time_series_def
      remove_locked_result log_event_def)

lemma derived_long_gauge_GET_eq:
  "derived_long_gauge_GET =
     \<lparr> heap = [GaugePointLong (PyInt 0), DerivedGaugePoint 7 0],
       trace = [Acquire PointsLock, Release PointsLock],
       gauge_class = DerivedLongGauge, len_label_keys = 1, default_label_values = [None],
       descriptor = MetricDescriptor ''requests'' ''requests seen'' ''1'' GAUGE_INT64 [''method''],
       points = [([Some ''GET''], 1)] \<rparr>"
  by (simp add: derived_long_gauge_GET_def scenario_simps)

lemma derived_double_gauge_GET_eq:
  "derived_double_gauge_GET =
     \<lparr> heap = [GaugePointDouble (PyFloat 0), DerivedGaugePoint 7 0],
       trace = [Acquire PointsLock, Release PointsLock],
       gauge_class = DerivedDoubleGauge, len_label_keys = 1, default_label_values = [None],
       descriptor = MetricDescriptor ''requests'' ''requests seen'' ''1'' GAUGE_DOUBLE [''method''],
       points = [([Some ''GET''], 1)] \<rparr>"
  by (simp add: derived_double_gauge_GET_def scenario_simps)

section \<open>Facts about derived points\<close>

lemma Derived_get_value_collected:
  "env f = Collected \<Longrightarrow> DerivedGaugePoint_get_value env fo f g s = (Inr PyNone, s)"
  by (simp add: DerivedGaugePoint_get_value_def evaluate_and_store_def)

lemma Derived_to_point_value_collected:
  "env f = Collected \<Longrightarrow> DerivedGaugePoint_to_point_value env fo f g s = (Inr None, s)"
  by (simp add: DerivedGaugePoint_to_point_value_def Derived_get_value_collected)

lemma lookup_stored: "g < length (heap s) \<Longrightarrow> lookup_obj (stored f g ob s) g = Some ob"
  by (simp add: stored_def lookup_obj_def store_obj_def log_event_def)

lemma evaluate_and_store_Long:
  assumes "env f = Live (Returns v)" "lookup_obj s g = Some (GaugePointLong w)"
    "isinstance_int v"
  shows "evaluate_and_store env fo f g s = (Inr (), stored f g (GaugePointLong v) s)"
  using assms
  by (simp add: evaluate_and_store_def set_value_def GaugePointLong_set_def with_lock_def
      stored_def)

lemma evaluate_and_store_Double:
  assumes "env f = Live (Returns v)" "lookup_obj s g = Some (GaugePointDouble w)"
    "py_float fo v = Inr x"
  shows "evaluate_and_store env fo f g s = (Inr (), stored f g (GaugePointDouble (PyFloat x)) s)"
  using assms
  by (simp add: evaluate_and_store_def set_value_def GaugePointDouble_set_def with_lock_def
      stored_def)

lemma Derived_get_value_Long:
  assumes "env f = Live (Returns v)" "lookup_obj s g = Some (GaugePointLong w)"
    "isinstance_int v"
  shows "DerivedGaugePoint_get_value env fo f g s = (Inr v, stored f g (GaugePointLong v) s)"
proof -
  have "g < length (heap s)" using assms(2) by (rule lookup_SomeD)
  then have "lookup_obj (stored f g (GaugePointLong v) s) g = Some (GaugePointLong v)"
    by (rule lookup_stored)
  then show ?thesis
    by (simp add: DerivedGaugePoint_get_value_def evaluate_and_store_Long[where env = env and f = f, OF assms]
        wrapped_get_value_def GaugePointLong_get_value_def self_value_def)
qed

lemma Derived_get_value_Double:
  assumes "env f = Live (Returns v)" "lookup_obj s g = Some (GaugePointDouble w)"
    "py_float fo v = Inr x"
  shows "DerivedGaugePoint_get_value env fo f g s
    = (Inr (PyFloat x), stored f g (GaugePointDouble (PyFloat x)) s)"
proof -
  have "g < length (heap s)" using assms(2) by (rule lookup_SomeD)
  then have "lookup_obj (stored f g (GaugePointDouble (PyFloat x)) s) g
      = Some (GaugePointDouble (PyFloat x))"
    by (rule lookup_stored)
  then show ?thesis
    by (simp add: DerivedGaugePoint_get_value_def evaluate_and_store_Double[where env = env and f = f, OF assms]
        wrapped_get_value_def GaugePointDouble_get_value_def self_value_def)
qed

lemma Derived_to_point_value_Long:
  assumes "env f = Live (Returns v)" "lookup_obj s g = Some (GaugePointLong w)"
    "isinstance_int v"
  shows "DerivedGaugePoint_to_point_value env fo f g s
    = (Inr (Some (ValueLong v)), stored f g (GaugePointLong v) s)"
proof -
  have "g < length (heap s)" using assms(2) by (rule lookup_SomeD)
  then have "lookup_obj (stored f g (GaugePointLong v) s) g = Some (GaugePointLong v)"
    by (rule lookup_stored)
  moreover have "v \<noteq> PyNone" using assms(3) by auto
  ultimately show ?thesis
    by (simp add: DerivedGaugePoint_to_point_value_def Derived_get_value_Long[where env = env and f = f, OF assms]
        wrapped_to_point_value_def GaugePointLong_to_point_value_def self_value_def)
qed

lemma Derived_to_point_value_Double:
  assumes "env f = Live (Returns v)" "lookup_obj s g = Some (GaugePointDouble w)"
    "py_float fo v = Inr x"
  shows "DerivedGaugePoint_to_point_value env fo f g s
    = (Inr (Some (ValueDouble (PyFloat x))), stored f g (GaugePointDouble (PyFloat x)) s)"
proof -
  have "g < length (heap s)" using assms(2) by (rule lookup_SomeD)
  then have "lookup_obj (stored f g (GaugePointDouble (PyFloat x)) s) g
      = Some (GaugePointDouble (PyFloat x))"
    by (rule lookup_stored)
  then show ?thesis
    by (simp add: DerivedGaugePoint_to_point_value_def Derived_get_value_Double[where env = env and f = f, OF assms]
        wrapped_to_point_value_def GaugePointDouble_to_point_value_def self_value_def)
qed

lemma get_value_Derived:
  "lookup_obj s a = Some (DerivedGaugePoint f g) \<Longrightarrow>
   get_value env fo a s = DerivedGaugePoint_get_value env fo f g s"
  by (simp add: get_value_def)

lemma to_point_value_Derived:
  "lookup_obj s a = Some (DerivedGaugePoint f g) \<Longrightarrow>
   to_point_value env fo a s = DerivedGaugePoint_to_point_value env fo f g s"
  by (simp add: to_point_value_def)

lemma lookup_derived_long:
  "lookup_obj derived_long_gauge_GET 1 = Some (DerivedGaugePoint 7 0)"
  "lookup_obj derived_long_gauge_GET 0 = Some (GaugePointLong (PyInt 0))"
  by (simp_all add: derived_long_gauge_GET_eq lookup_obj_def)

lemma lookup_derived_double:
  "lookup_obj derived_double_gauge_GET 1 = Some (DerivedGaugePoint 7 0)"
  "lookup_obj derived_double_gauge_GET 0 = Some (GaugePointDouble (PyFloat 0))"
  by (simp_all add: derived_double_gauge_GET_eq lookup_obj_def)








section \<open>The events of get_metric\<close>





section \<open>GaugePointLong rejects what is not an integer\<close>

text \<open>
  C3. For every input that is not an instance of the integer types, \<open>add\<close> and \<open>set\<close>
  of a \<open>GaugePointLong\<close> raise ValueError and the state is the one before the call: no
  lock was taken and the held value is unchanged. Every other input is an integer (a
  \<^verbatim>\<open>bool\<close> counts as one, as \<^verbatim>\<open>isinstance\<close> has it), and on a point holding an
  integer \<open>add\<close> then succeeds and the point holds the sum, and \<open>set\<close> succeeds and
  the point holds the input.
\<close>

theorem GaugePointLong_add_set_kind:
  "(\<not> isinstance_int val \<longrightarrow>
      GaugePointLong_add fo a val s = (Inl ValueError, s) \<and>
      GaugePointLong_set a val s = (Inl ValueError, s))
   \<and> (isinstance_int val \<longleftrightarrow> (\<exists>j. as_int val = Some j))
   \<and> (\<forall>i j. lookup_obj s a = Some (GaugePointLong v) \<and> as_int v = Some i \<and>
         as_int val = Some j \<longrightarrow>
        (\<exists>s'. GaugePointLong_add fo a val s = (Inr (), s') \<and>
              lookup_obj s' a = Some (GaugePointLong (PyInt (i + j)))) \<and>
        (\<exists>s'. GaugePointLong_set a val s = (Inr (), s') \<and>
              lookup_obj s' a = Some (GaugePointLong val)))"
proof (intro conjI impI allI)
  show "isinstance_int val \<longleftrightarrow> (\<exists>j. as_int val = Some j)"
    by (rule isinstance_int_as_int)
next
  assume "\<not> isinstance_int val"
  then show "GaugePointLong_add fo a val s = (Inl ValueError, s)"
    by (simp add: GaugePointLong_add_def)
next
  assume "\<not> isinstance_int val"
  then show "GaugePointLong_set a val s = (Inl ValueError, s)"
    by (simp add: GaugePointLong_set_def)
next
  fix i j
  assume h: "lookup_obj s a = Some (GaugePointLong v) \<and> as_int v = Some i \<and>
    as_int val = Some j"
  then have inst: "isinstance_int val" and lt: "a < length (heap s)"
    by (auto simp: isinstance_int_as_int dest: lookup_SomeD)
  from h inst lt
  show "\<exists>s'. GaugePointLong_add fo a val s = (Inr (), s') \<and>
          lookup_obj s' a = Some (GaugePointLong (PyInt (i + j)))"
    by (simp add: GaugePointLong_add_def with_lock_def self_value_def py_add_ints
        log_event_def store_obj_def lookup_obj_def)
  from h inst lt
  show "\<exists>s'. GaugePointLong_set a val s = (Inr (), s') \<and>
          lookup_obj s' a = Some (GaugePointLong val)"
    by (simp add: GaugePointLong_set_def with_lock_def log_event_def store_obj_def
        lookup_obj_def)
qed

theorem GaugePointLong_add_set_kind_witness:
  "GaugePointLong_add ideal_floats 0 (PyFloat (1 / 2)) long_gauge_GET
     = (Inl ValueError, long_gauge_GET)
   \<and> GaugePointLong_set 0 (PyFloat (1 / 2)) long_gauge_GET = (Inl ValueError, long_gauge_GET)
   \<and> (\<exists>s'. GaugePointLong_add ideal_floats 0 (PyInt 5) long_gauge_GET = (Inr (), s') \<and>
          lookup_obj s' 0 = Some (GaugePointLong (PyInt 5)))
   \<and> (\<exists>s'. GaugePointLong_set 0 (PyBool True) long_gauge_GET = (Inr (), s') \<and>
          lookup_obj s' 0 = Some (GaugePointLong (PyBool True)))"
proof -
  have l: "lookup_obj long_gauge_GET 0 = Some (GaugePointLong (PyInt 0))"
    by (simp add: long_gauge_GET_eq lookup_obj_def)
  show ?thesis
    using
      GaugePointLong_add_set_kind [where val = "PyFloat (1 / 2)" and fo = ideal_floats
        and a = 0 and s = long_gauge_GET]
      GaugePointLong_add_set_kind [where val = "PyInt 5" and fo = ideal_floats
        and a = 0 and s = long_gauge_GET and v = "PyInt 0"]
      GaugePointLong_add_set_kind [where val = "PyBool True" and fo = ideal_floats
        and a = 0 and s = long_gauge_GET and v = "PyInt 0"]
      l
    by simp
qed

section \<open>What get_metric returns\<close>

text \<open>
  C1. On a \<open>LongGauge\<close> built with one label key,
  \<^verbatim>\<open>get_or_create_time_series(["GET"])\<close>, then \<^verbatim>\<open>add(5)\<close> and \<^verbatim>\<open>add(3)\<close>
  on the point it returned, then \<^verbatim>\<open>get_metric(t)\<close>, all succeed, and the metric has
  the gauge's descriptor and exactly one time series: label values \<open>("GET")\<close>, one point
  with the integer value 8 and the timestamp \<open>t\<close>. In general, a metric returned by
  \<open>get_metric\<close> has one time series per entry of the dictionary, in the dictionary's
  order, each with exactly one point carrying the timestamp given; and a well-formed direct
  gauge with an entry does get a metric.
\<close>

theorem get_metric_scenario:
  "(\<exists>a s1 s2 s3 s4.
      get_or_create_time_series (fo :: 'f float_ops) (Some [Some ''GET''])
        (BaseGauge_init LongGauge name description unit [key]) = (Inr a, s1) \<and>
      add fo a (PyInt 5) s1 = (Inr (), s2) \<and>
      add fo a (PyInt 3) s2 = (Inr (), s3) \<and>
      get_metric env fo t s3 =
        (Inr (Some (Metric (MetricDescriptor name description unit GAUGE_INT64 [key])
                      [TimeSeries [Some ''GET''] [Point (Some (ValueLong (PyInt 8))) t] t])),
         s4))
   \<and> (\<forall>(s :: ('f, 'l) state) m s'. get_metric env fo t s = (Inr (Some m), s') \<longrightarrow>
         map ts_label_values (m_time_series m) = map fst (points s) \<and>
         (\<forall>ts \<in> set (m_time_series m). \<exists>pv. ts_points ts = [Point pv t]))
   \<and> (\<forall>(s :: ('f, 'l) state).
         wf_state s \<and> \<not> is_derived (gauge_class s) \<and> points s \<noteq> [] \<longrightarrow>
         (\<exists>m s'. get_metric env fo t s = (Inr (Some m), s')))"
proof (intro conjI allI impI)
  show "\<exists>a s1 s2 s3 s4.
      get_or_create_time_series fo (Some [Some ''GET''])
        (BaseGauge_init LongGauge name description unit [key]) = (Inr a, s1) \<and>
      add fo a (PyInt 5) s1 = (Inr (), s2) \<and>
      add fo a (PyInt 3) s2 = (Inr (), s3) \<and>
      get_metric env fo t s3 =
        (Inr (Some (Metric (MetricDescriptor name description unit GAUGE_INT64 [key])
                      [TimeSeries [Some ''GET''] [Point (Some (ValueLong (PyInt 8))) t] t])),
         s4)"
    by (simp add: BaseGauge_init_def get_or_create_time_series_def
        get_or_create_time_series_locked_def alloc_def od_setdefault_def GaugePointLong_init_def
        log_event_def store_obj_def lookup_obj_def with_lock_def
        add_def GaugePointLong_add_def self_value_def py_add_def
        get_metric_def get_timeseries_list_def to_point_value_def
        GaugePointLong_to_point_value_def)
next
  fix s :: "('f, 'l) state" and m s'
  assume "get_metric env fo t s = (Inr (Some m), s')"
  from get_metric_Some_shape[OF this]
  show "map ts_label_values (m_time_series m) = map fst (points s)"
    and "\<forall>ts \<in> set (m_time_series m). \<exists>pv. ts_points ts = [Point pv t]"
    by simp_all
next
  fix s :: "('f, 'l) state"
  assume "wf_state s \<and> \<not> is_derived (gauge_class s) \<and> points s \<noteq> []"
  then show "\<exists>m s'. get_metric env fo t s = (Inr (Some m), s')"
    using get_metric_direct[of s env fo t] by blast
qed

theorem get_metric_scenario_witness:
  "wf_state long_gauge_GET \<and> \<not> is_derived (gauge_class long_gauge_GET) \<and>
   points long_gauge_GET \<noteq> [] \<and>
   (\<exists>m s'. get_metric raising_env ideal_floats (42 :: nat) long_gauge_GET = (Inr (Some m), s') \<and>
      map ts_label_values (m_time_series m) = [[Some ''GET'']] \<and>
      (\<forall>ts \<in> set (m_time_series m). \<exists>pv. ts_points ts = [Point pv 42]))"
proof -
  have wf: "wf_state long_gauge_GET"
    unfolding long_gauge_GET_def requests_gauge_def
    by (rule wf_state_get_or_create[OF wf_state_init]) (rule surjective_pairing)
  have nd: "\<not> is_derived (gauge_class long_gauge_GET)" and ne: "points long_gauge_GET \<noteq> []"
    and p: "map fst (points long_gauge_GET) = [[Some ''GET'']]"
    by (simp_all add: long_gauge_GET_eq)
  note c = get_metric_scenario [where env = raising_env and fo = ideal_floats and t = "42 :: nat",
      where ?'l = string]
  from c wf nd ne
  obtain m s' where g: "get_metric raising_env ideal_floats (42 :: nat) long_gauge_GET
      = (Inr (Some m), s')"
    by blast
  with c have "map ts_label_values (m_time_series m) = map fst (points long_gauge_GET) \<and>
      (\<forall>ts \<in> set (m_time_series m). \<exists>pv. ts_points ts = [Point pv 42])"
    by blast
  with wf nd ne g p show ?thesis by auto
qed




section \<open>Removing a time series\<close>

text \<open>
  C4. \<open>remove_time_series\<close> raises ValueError when \<open>label_values\<close> is \<open>None\<close>,
  contains \<open>None\<close>, or has a length other than the number of label keys, and the state
  is then the one before the call, the dictionary included. On valid label values it
  returns normally: the entry of exactly that tuple is gone, every other entry is kept in
  its place, no object is touched, and when the tuple was not a key the dictionary is the
  same as before.
\<close>

theorem remove_time_series_validates:
  "((label_values = None \<or>
      (\<exists>lvs. label_values = Some lvs \<and> (None \<in> set lvs \<or> length lvs \<noteq> len_label_keys s))) \<longrightarrow>
      remove_time_series label_values s = (Inl ValueError, s))
   \<and> (None \<notin> set lvs \<and> length lvs = len_label_keys s \<longrightarrow>
        (\<exists>s'. remove_time_series (Some lvs) s = (Inr (), s') \<and>
           points s' = filter (\<lambda>kv. fst kv \<noteq> lvs) (points s) \<and>
           heap s' = heap s \<and>
           map_of (points s') lvs = None \<and>
           (\<forall>k. k \<noteq> lvs \<longrightarrow> map_of (points s') k = map_of (points s) k) \<and>
           (lvs \<notin> set (map fst (points s)) \<longrightarrow> points s' = points s)))"
proof (intro conjI impI)
  assume "label_values = None \<or>
      (\<exists>lvs. label_values = Some lvs \<and> (None \<in> set lvs \<or> length lvs \<noteq> len_label_keys s))"
  then show "remove_time_series label_values s = (Inl ValueError, s)"
    by (auto simp: remove_time_series_def list_ex_None)
next
  assume v: "None \<notin> set lvs \<and> length lvs = len_label_keys s"
  define s' where "s' = log_event (Release PointsLock)
        ((log_event (Acquire PointsLock) s)\<lparr>points := filter (\<lambda>kv. fst kv \<noteq> lvs) (points s)\<rparr>)"
  have r: "remove_time_series (Some lvs) s = (Inr (), s')"
    using v by (simp add: remove_time_series_def list_ex_None remove_locked_result s'_def)
  have p: "points s' = filter (\<lambda>kv. fst kv \<noteq> lvs) (points s)" and h: "heap s' = heap s"
    by (simp_all add: log_event_def s'_def)
  have n: "map_of (points s') lvs = None"
    unfolding p by (auto simp: map_of_eq_None_iff)
  have o: "\<forall>k. k \<noteq> lvs \<longrightarrow> map_of (points s') k = map_of (points s) k"
    unfolding p by (simp add: map_of_filter_other)
  have i: "lvs \<notin> set (map fst (points s)) \<longrightarrow> points s' = points s"
    unfolding p by (auto simp: filter_id_conv)
  from r p h n o i
  show "\<exists>s'. remove_time_series (Some lvs) s = (Inr (), s') \<and>
           points s' = filter (\<lambda>kv. fst kv \<noteq> lvs) (points s) \<and>
           heap s' = heap s \<and>
           map_of (points s') lvs = None \<and>
           (\<forall>k. k \<noteq> lvs \<longrightarrow> map_of (points s') k = map_of (points s) k) \<and>
           (lvs \<notin> set (map fst (points s)) \<longrightarrow> points s' = points s)"
    by blast
qed

theorem remove_time_series_validates_witness:
  "remove_time_series None long_gauge_GET = (Inl ValueError, long_gauge_GET) \<and>
   remove_time_series (Some [None]) long_gauge_GET = (Inl ValueError, long_gauge_GET) \<and>
   remove_time_series (Some [Some ''GET'', Some ''200'']) long_gauge_GET
     = (Inl ValueError, long_gauge_GET) \<and>
   (\<exists>s'. remove_time_series (Some [Some ''GET'']) long_gauge_GET = (Inr (), s') \<and>
      points s' = []) \<and>
   (\<exists>s'. remove_time_series (Some [Some ''POST'']) long_gauge_GET = (Inr (), s') \<and>
      points s' = points long_gauge_GET)"
proof -
  have f: "len_label_keys long_gauge_GET = 1" "points long_gauge_GET = [([Some ''GET''], 0)]"
    by (simp_all add: long_gauge_GET_eq)
  note T = remove_time_series_validates [where s = long_gauge_GET]
  have 1: "remove_time_series None long_gauge_GET = (Inl ValueError, long_gauge_GET)"
    using T [where label_values = None and lvs = "[]"] by simp
  have 2: "remove_time_series (Some [None]) long_gauge_GET = (Inl ValueError, long_gauge_GET)"
    using T [where label_values = "Some [None]" and lvs = "[]"] by simp
  have 3: "remove_time_series (Some [Some ''GET'', Some ''200'']) long_gauge_GET
     = (Inl ValueError, long_gauge_GET)"
    using T [where label_values = "Some [Some ''GET'', Some ''200'']" and lvs = "[]"] f
    by simp
  have 4: "\<exists>s'. remove_time_series (Some [Some ''GET'']) long_gauge_GET = (Inr (), s') \<and>
      points s' = []"
    using T [where label_values = None and lvs = "[Some ''GET'']"] f by auto
  have 5: "\<exists>s'. remove_time_series (Some [Some ''POST'']) long_gauge_GET = (Inr (), s') \<and>
      points s' = points long_gauge_GET"
    using T [where label_values = None and lvs = "[Some ''POST'']"] f by auto
  from 1 2 3 4 5 show ?thesis by blast
qed

section \<open>Points of a direct gauge\<close>



section \<open>Clearing, removing, and the metric after them\<close>

text \<open>
  C8. \<open>clear\<close> succeeds and leaves an empty dictionary, on which \<open>get_metric\<close>
  returns \<open>None\<close>. After a successful \<open>remove_time_series\<close> of a tuple, the tuple
  is not a key; and as long as a tuple is not a key, no metric that \<open>get_metric\<close>
  returns has a time series for it, and no operation other than creating a point for that
  very tuple makes it a key again.
\<close>

theorem clear_and_remove_then_get_metric:
  "(\<exists>s'. clear s = (Inr (), s') \<and> points s' = [] \<and> get_metric env fo t s' = (Inr None, s'))
   \<and> (\<forall>s1. remove_time_series (Some lvs) s = (Inr (), s1) \<longrightarrow>
         lvs \<notin> set (map fst (points s1)))
   \<and> (lvs \<notin> set (map fst (points s)) \<longrightarrow>
        (\<forall>m s'. get_metric env fo t s = (Inr (Some m), s') \<longrightarrow>
           lvs \<notin> set (map ts_label_values (m_time_series m))) \<and>
        (\<forall>r s'. get_metric env fo t s = (r, s') \<longrightarrow> lvs \<notin> set (map fst (points s'))) \<and>
        (\<forall>a v r s'. add fo a v s = (r, s') \<longrightarrow> lvs \<notin> set (map fst (points s'))) \<and>
        (\<forall>a v r s'. set_value fo a v s = (r, s') \<longrightarrow> lvs \<notin> set (map fst (points s'))) \<and>
        (\<forall>lv r s'. remove_time_series lv s = (r, s') \<longrightarrow> lvs \<notin> set (map fst (points s'))) \<and>
        (\<forall>lv r s'. lv \<noteq> Some lvs \<and> get_or_create_time_series fo lv s = (r, s') \<longrightarrow>
           lvs \<notin> set (map fst (points s'))) \<and>
        (\<forall>lv f r s'. lv \<noteq> Some lvs \<and> create_time_series fo lv f s = (r, s') \<longrightarrow>
           lvs \<notin> set (map fst (points s'))))"
proof -
  define s0 where "s0 = log_event (Release PointsLock)
    ((log_event (Acquire PointsLock) s)\<lparr>points := []\<rparr>)"
  have c: "clear s = (Inr (), s0)" and e: "points s0 = []"
    by (simp_all add: clear_def with_lock_def s0_def log_event_def)
  have g: "get_metric env fo t s0 = (Inr None, s0)" using e by (rule get_metric_empty)
  have A: "\<exists>s'. clear s = (Inr (), s') \<and> points s' = [] \<and>
      get_metric env fo t s' = (Inr None, s')"
    by (rule exI[of _ s0]) (simp only: c e g simp_thms)
  have B: "\<forall>s1. remove_time_series (Some lvs) s = (Inr (), s1) \<longrightarrow>
         lvs \<notin> set (map fst (points s1))"
    by (auto simp: remove_time_series_def remove_locked_result log_event_def
        split: if_splits)
  have C: "lvs \<notin> set (map ts_label_values (m_time_series m))"
    if "lvs \<notin> set (map fst (points s))" "get_metric env fo t s = (Inr (Some m), s')"
    for m s'
    using get_metric_Some_shape[OF that(2)] that(1) by simp
  have D: "lvs \<notin> set (map fst (points s'))"
    if "lvs \<notin> set (map fst (points s))" "get_metric env fo t s = (r, s')" for r s'
    using get_metric_point_step[OF that(2)] that(1) by simp
  have E: "lvs \<notin> set (map fst (points s'))"
    if "lvs \<notin> set (map fst (points s))" "add fo a v s = (r, s')" for a v r s'
    using point_step_add[OF that(2)] that(1) by (simp add: point_step_def)
  have F: "lvs \<notin> set (map fst (points s'))"
    if "lvs \<notin> set (map fst (points s))" "set_value fo a v s = (r, s')" for a v r s'
    using point_step_set_value[OF that(2)] that(1) by (simp add: point_step_def)
  have G: "lvs \<notin> set (map fst (points s'))"
    if "lvs \<notin> set (map fst (points s))" "remove_time_series lv s = (r, s')" for lv r s'
    using keys_remove[OF that(2)] that(1) by blast
  have H: "lvs \<notin> set (map fst (points s'))"
    if "lvs \<notin> set (map fst (points s))" "lv \<noteq> Some lvs"
      "get_or_create_time_series fo lv s = (r, s')" for lv r s'
    using keys_get_or_create[OF that(3,2,1)] .
  have I: "lvs \<notin> set (map fst (points s'))"
    if "lvs \<notin> set (map fst (points s))" "lv \<noteq> Some lvs"
      "create_time_series fo lv f s = (r, s')" for lv f r s'
    using keys_create[OF that(3,2,1)] .
  have J: "lvs \<notin> set (map fst (points s)) \<longrightarrow>
        (\<forall>m s'. get_metric env fo t s = (Inr (Some m), s') \<longrightarrow>
           lvs \<notin> set (map ts_label_values (m_time_series m))) \<and>
        (\<forall>r s'. get_metric env fo t s = (r, s') \<longrightarrow> lvs \<notin> set (map fst (points s'))) \<and>
        (\<forall>a v r s'. add fo a v s = (r, s') \<longrightarrow> lvs \<notin> set (map fst (points s'))) \<and>
        (\<forall>a v r s'. set_value fo a v s = (r, s') \<longrightarrow> lvs \<notin> set (map fst (points s'))) \<and>
        (\<forall>lv r s'. remove_time_series lv s = (r, s') \<longrightarrow> lvs \<notin> set (map fst (points s'))) \<and>
        (\<forall>lv r s'. lv \<noteq> Some lvs \<and> get_or_create_time_series fo lv s = (r, s') \<longrightarrow>
           lvs \<notin> set (map fst (points s'))) \<and>
        (\<forall>lv f r s'. lv \<noteq> Some lvs \<and> create_time_series fo lv f s = (r, s') \<longrightarrow>
           lvs \<notin> set (map fst (points s')))"
  proof (intro impI conjI allI)
    fix m s' assume "lvs \<notin> set (map fst (points s))"
      "get_metric env fo t s = (Inr (Some m), s')"
    then show "lvs \<notin> set (map ts_label_values (m_time_series m))" by (rule C)
  next
    fix r s' assume "lvs \<notin> set (map fst (points s))" "get_metric env fo t s = (r, s')"
    then show "lvs \<notin> set (map fst (points s'))" by (rule D)
  next
    fix a v r s' assume "lvs \<notin> set (map fst (points s))" "add fo a v s = (r, s')"
    then show "lvs \<notin> set (map fst (points s'))" by (rule E)
  next
    fix a v r s' assume "lvs \<notin> set (map fst (points s))" "set_value fo a v s = (r, s')"
    then show "lvs \<notin> set (map fst (points s'))" by (rule F)
  next
    fix lv r s' assume "lvs \<notin> set (map fst (points s))" "remove_time_series lv s = (r, s')"
    then show "lvs \<notin> set (map fst (points s'))" by (rule G)
  next
    fix lv r s' assume "lvs \<notin> set (map fst (points s))"
      "lv \<noteq> Some lvs \<and> get_or_create_time_series fo lv s = (r, s')"
    then show "lvs \<notin> set (map fst (points s'))" using H by blast
  next
    fix lv f r s' assume "lvs \<notin> set (map fst (points s))"
      "lv \<noteq> Some lvs \<and> create_time_series fo lv f s = (r, s')"
    then show "lvs \<notin> set (map fst (points s'))" using I by blast
  qed
  show ?thesis by (rule conjI[OF A conjI[OF B J]])
qed

theorem clear_and_remove_then_get_metric_witness:
  "remove_time_series (Some [Some ''GET'']) long_gauge_GET_POST = (Inr (), long_gauge_POST) \<and>
   [Some ''GET''] \<notin> set (map fst (points long_gauge_POST)) \<and>
   (\<exists>m s'. get_metric raising_env ideal_floats (42 :: nat) long_gauge_POST
        = (Inr (Some m), s') \<and>
      [Some ''GET''] \<notin> set (map ts_label_values (m_time_series m)))"
proof -
  have r: "remove_time_series (Some [Some ''GET'']) long_gauge_GET_POST
      = (Inr (), long_gauge_POST)"
    by (simp add: long_gauge_POST_eq)
      (simp add: long_gauge_GET_POST_eq remove_time_series_def remove_locked_result
        log_event_def)
  define m :: "(rat, string, nat) metric" where
    "m = Metric (descriptor long_gauge_POST)
          [TimeSeries [Some ''POST''] [Point (Some (ValueLong (PyInt 0))) 42] 42]"
  define s' where
    "s' = log_event (Release PointsLock) (log_event (Acquire PointsLock) long_gauge_POST)"
  have g: "get_metric raising_env ideal_floats (42 :: nat) long_gauge_POST = (Inr (Some m), s')"
    unfolding m_def s'_def
    by (simp add: long_gauge_POST_eq get_metric_def get_timeseries_list_def with_lock_def
        log_event_def to_point_value_def lookup_obj_def GaugePointLong_to_point_value_def
        self_value_def)
  note T = clear_and_remove_then_get_metric [where lvs = "[Some ''GET'']"
      and env = raising_env and fo = ideal_floats and t = "42 :: nat"]
  have k: "[Some ''GET''] \<notin> set (map fst (points long_gauge_POST))"
    using T [where s = long_gauge_GET_POST] r by simp
  have "[Some ''GET''] \<notin> set (map ts_label_values (m_time_series m))"
    by (rule T [where s = long_gauge_POST, THEN conjunct2, THEN conjunct2, THEN mp, OF k,
          THEN conjunct1, rule_format, OF g])
  with r k g show ?thesis by (intro conjI exI[of _ m] exI[of _ s']) simp_all
qed

section \<open>Reading a derived point\<close>

text \<open>
  C7. On a derived point whose tracked function's target has been collected,
  \<open>get_value\<close> returns \<open>None\<close> and \<open>to_point_value\<close> returns \<open>None\<close>;
  neither raises, and the state is unchanged. When the target is live and the function
  returns a value of the wrapped point's kind (an integer for a \<open>GaugePointLong\<close>, a
  float for a \<open>GaugePointDouble\<close>), \<open>get_value\<close> stores it in the wrapped point and
  returns what that point then holds, and \<open>to_point_value\<close> returns the wrapped point's
  typed value, \<open>ValueLong\<close> or \<open>ValueDouble\<close>, leaving the same state.
\<close>

theorem derived_point_reads:
  "(lookup_obj s a = Some (DerivedGaugePoint f g) \<and> env f = Collected \<longrightarrow>
      get_value env fo a s = (Inr PyNone, s) \<and> to_point_value env fo a s = (Inr None, s))
   \<and> (lookup_obj s a = Some (DerivedGaugePoint f g) \<and> env f = Live (Returns v) \<and>
       lookup_obj s g = Some (GaugePointLong w) \<and> isinstance_int v \<longrightarrow>
        (\<exists>s'. get_value env fo a s = (Inr v, s') \<and>
              lookup_obj s' g = Some (GaugePointLong v) \<and>
              self_value s' g = Inr v \<and>
              to_point_value env fo a s = (Inr (Some (ValueLong v)), s')))
   \<and> (lookup_obj s a = Some (DerivedGaugePoint f g) \<and> env f = Live (Returns (PyFloat x)) \<and>
       lookup_obj s g = Some (GaugePointDouble w) \<longrightarrow>
        (\<exists>s'. get_value env fo a s = (Inr (PyFloat x), s') \<and>
              lookup_obj s' g = Some (GaugePointDouble (PyFloat x)) \<and>
              self_value s' g = Inr (PyFloat x) \<and>
              to_point_value env fo a s = (Inr (Some (ValueDouble (PyFloat x))), s')))"
proof -
  have A: "get_value env fo a s = (Inr PyNone, s) \<and> to_point_value env fo a s = (Inr None, s)"
    if "lookup_obj s a = Some (DerivedGaugePoint f g) \<and> env f = Collected"
    using that
    by (simp add: get_value_Derived to_point_value_Derived Derived_get_value_collected
        Derived_to_point_value_collected)
  have B: "\<exists>s'. get_value env fo a s = (Inr v, s') \<and>
              lookup_obj s' g = Some (GaugePointLong v) \<and>
              self_value s' g = Inr v \<and>
              to_point_value env fo a s = (Inr (Some (ValueLong v)), s')"
    if h: "lookup_obj s a = Some (DerivedGaugePoint f g) \<and> env f = Live (Returns v) \<and>
       lookup_obj s g = Some (GaugePointLong w) \<and> isinstance_int v"
  proof -
    let ?s' = "stored f g (GaugePointLong v) s"
    from h have "g < length (heap s)" by (auto dest: lookup_SomeD)
    then have l: "lookup_obj ?s' g = Some (GaugePointLong v)" by (rule lookup_stored)
    then have sv: "self_value ?s' g = Inr v" by (simp add: self_value_def)
    from h have gv: "get_value env fo a s = (Inr v, ?s')"
      by (simp add: get_value_Derived Derived_get_value_Long)
    from h have tp: "to_point_value env fo a s = (Inr (Some (ValueLong v)), ?s')"
      by (simp add: to_point_value_Derived Derived_to_point_value_Long)
    show ?thesis by (rule exI[of _ ?s']) (simp only: gv l sv tp simp_thms)
  qed
  have C: "\<exists>s'. get_value env fo a s = (Inr (PyFloat x), s') \<and>
              lookup_obj s' g = Some (GaugePointDouble (PyFloat x)) \<and>
              self_value s' g = Inr (PyFloat x) \<and>
              to_point_value env fo a s = (Inr (Some (ValueDouble (PyFloat x))), s')"
    if h: "lookup_obj s a = Some (DerivedGaugePoint f g) \<and> env f = Live (Returns (PyFloat x)) \<and>
       lookup_obj s g = Some (GaugePointDouble w)"
  proof -
    let ?s' = "stored f g (GaugePointDouble (PyFloat x)) s"
    have pf: "py_float fo (PyFloat x) = Inr x" by simp
    from h have "g < length (heap s)" by (auto dest: lookup_SomeD)
    then have l: "lookup_obj ?s' g = Some (GaugePointDouble (PyFloat x))"
      by (rule lookup_stored)
    then have sv: "self_value ?s' g = Inr (PyFloat x)" by (simp add: self_value_def)
    from h have gv: "get_value env fo a s = (Inr (PyFloat x), ?s')"
      by (simp add: get_value_Derived Derived_get_value_Double[where env = env and f = f, OF _ _ pf])
    from h have tp: "to_point_value env fo a s = (Inr (Some (ValueDouble (PyFloat x))), ?s')"
      by (simp add: to_point_value_Derived Derived_to_point_value_Double[where env = env and f = f, OF _ _ pf])
    show ?thesis by (rule exI[of _ ?s']) (simp only: gv l sv tp simp_thms)
  qed
  show ?thesis
    by (rule conjI[OF impI[OF A] conjI[OF impI[OF B] impI[OF C]]])
qed

theorem derived_point_reads_witness:
  "get_value collected_env ideal_floats 1 derived_long_gauge_GET
     = (Inr PyNone, derived_long_gauge_GET) \<and>
   to_point_value collected_env ideal_floats 1 derived_long_gauge_GET
     = (Inr None, derived_long_gauge_GET) \<and>
   (\<exists>s'. get_value (returning_env (PyInt 5) (PyInt 6)) ideal_floats 1 derived_long_gauge_GET
           = (Inr (PyInt 5), s') \<and>
         lookup_obj s' 0 = Some (GaugePointLong (PyInt 5)) \<and>
         self_value s' 0 = Inr (PyInt 5) \<and>
         to_point_value (returning_env (PyInt 5) (PyInt 6)) ideal_floats 1
           derived_long_gauge_GET = (Inr (Some (ValueLong (PyInt 5))), s')) \<and>
   (\<exists>s'. get_value (returning_env (PyFloat (157 / 50)) (PyInt 6)) ideal_floats 1
           derived_double_gauge_GET = (Inr (PyFloat (157 / 50)), s') \<and>
         lookup_obj s' 0 = Some (GaugePointDouble (PyFloat (157 / 50))) \<and>
         self_value s' 0 = Inr (PyFloat (157 / 50)) \<and>
         to_point_value (returning_env (PyFloat (157 / 50)) (PyInt 6)) ideal_floats 1
           derived_double_gauge_GET = (Inr (Some (ValueDouble (PyFloat (157 / 50)))), s'))"
proof -
  have 1: "get_value collected_env ideal_floats 1 derived_long_gauge_GET
     = (Inr PyNone, derived_long_gauge_GET) \<and>
   to_point_value collected_env ideal_floats 1 derived_long_gauge_GET
     = (Inr None, derived_long_gauge_GET)"
    using derived_point_reads [where s = derived_long_gauge_GET and a = 1 and f = 7
        and g = 0 and env = collected_env and fo = ideal_floats and v = PyNone
        and w = "PyInt 0" and x = 0]
      lookup_derived_long
    by (simp add: collected_env_def)
  have 2: "\<exists>s'. get_value (returning_env (PyInt 5) (PyInt 6)) ideal_floats 1
           derived_long_gauge_GET = (Inr (PyInt 5), s') \<and>
         lookup_obj s' 0 = Some (GaugePointLong (PyInt 5)) \<and>
         self_value s' 0 = Inr (PyInt 5) \<and>
         to_point_value (returning_env (PyInt 5) (PyInt 6)) ideal_floats 1
           derived_long_gauge_GET = (Inr (Some (ValueLong (PyInt 5))), s')"
    using derived_point_reads [where s = derived_long_gauge_GET and a = 1 and f = 7
        and g = 0 and env = "returning_env (PyInt 5) (PyInt 6)" and fo = ideal_floats
        and v = "PyInt 5" and w = "PyInt 0" and x = 0]
      lookup_derived_long
    by (simp add: returning_env_def)
  have 3: "\<exists>s'. get_value (returning_env (PyFloat (157 / 50)) (PyInt 6)) ideal_floats 1
           derived_double_gauge_GET = (Inr (PyFloat (157 / 50)), s') \<and>
         lookup_obj s' 0 = Some (GaugePointDouble (PyFloat (157 / 50))) \<and>
         self_value s' 0 = Inr (PyFloat (157 / 50)) \<and>
         to_point_value (returning_env (PyFloat (157 / 50)) (PyInt 6)) ideal_floats 1
           derived_double_gauge_GET = (Inr (Some (ValueDouble (PyFloat (157 / 50)))), s')"
    using derived_point_reads [where s = derived_double_gauge_GET and a = 1 and f = 7
        and g = 0 and env = "returning_env (PyFloat (157 / 50)) (PyInt 6)"
        and fo = ideal_floats and v = "PyFloat (157 / 50)" and w = "PyFloat 0"
        and x = "157 / 50"]
      lookup_derived_double
    by (simp add: returning_env_def)
  from 1 2 3 show ?thesis by (intro conjI) simp_all
qed



section \<open>The first registration wins\<close>



section \<open>The map lock during get_metric\<close>




end
